theory Spec2Isabelle
  imports Main "HOL-Library.Word"
begin

unbundle bit_operations_syntax

section \<open>Python strings\<close>

text \<open>
  A Python \<open>str\<close> is a sequence of Unicode code points, and \<open>len\<close> counts code points.
  A code point is a natural number here; recipe names in Telugu or Hindi are strings like
  any other. \<open>ascii\<close> writes an ASCII literal of the source as such a string.
\<close>

type_synonym pystr = "nat list"

abbreviation ascii :: "string \<Rightarrow> pystr" where
  "ascii s \<equiv> map of_char s"

text \<open>
  \<open>str.isspace\<close> on one code point: the white space of the Unicode character database
  (tab to carriage return, the information separators, space, NEL, no-break space, the
  Ogham space mark, the general punctuation spaces, line and paragraph separator, narrow
  no-break space, medium mathematical space, ideographic space).
\<close>

definition isspace :: "nat \<Rightarrow> bool" where
  "isspace c \<longleftrightarrow>
     (9 \<le> c \<and> c \<le> 13) \<or> (28 \<le> c \<and> c \<le> 32) \<or> c = 133 \<or> c = 160 \<or> c = 5760 \<or>
     (8192 \<le> c \<and> c \<le> 8202) \<or> c = 8232 \<or> c = 8233 \<or> c = 8239 \<or> c = 8287 \<or>
     c = 12288"

text \<open>\<open>s.strip()\<close>: leading and trailing white space removed.\<close>

definition strip :: "pystr \<Rightarrow> pystr" where
  "strip s = rev (dropWhile isspace (rev (dropWhile isspace s)))"

section \<open>Validator\<close>

text \<open>
  \<^verbatim>\<open>
  def validate_recipe_data(name, ingredients, instructions):
      errors = []
      if not name or len(name.strip()) < 3:
          errors.append("Recipe name must be at least 3 characters long")
      if not ingredients or len(ingredients.strip()) < 10:
          errors.append("Ingredients must be at least 10 characters long")
      if not instructions or len(instructions.strip()) < 20:
          errors.append("Instructions must be at least 20 characters long")
      return errors
  \<close>
  An argument is a string or \<open>None\<close>; \<open>not x\<close> holds for \<open>None\<close> and for the empty
  string, and \<open>or\<close> does not look at its right side then.
\<close>

definition name_error :: pystr where
  "name_error = ascii ''Recipe name must be at least 3 characters long''"

definition ingredients_error :: pystr where
  "ingredients_error = ascii ''Ingredients must be at least 10 characters long''"

definition instructions_error :: pystr where
  "instructions_error = ascii ''Instructions must be at least 20 characters long''"

fun too_short :: "pystr option \<Rightarrow> nat \<Rightarrow> bool" where
  "too_short None n = True"
| "too_short (Some s) n = (s = [] \<or> length (strip s) < n)"

definition validate_recipe_data ::
  "pystr option \<Rightarrow> pystr option \<Rightarrow> pystr option \<Rightarrow> pystr list" where
  "validate_recipe_data name ingredients instructions =
     (let errors = [];
          errors = (if too_short name 3 then errors @ [name_error] else errors);
          errors = (if too_short ingredients 10 then errors @ [ingredients_error] else errors);
          errors = (if too_short instructions 20 then errors @ [instructions_error] else errors)
      in errors)"

text \<open>The length the specification speaks of: an absent input has length 0.\<close>

fun trimmed_length :: "pystr option \<Rightarrow> nat" where
  "trimmed_length None = 0"
| "trimmed_length (Some s) = length (strip s)"

section \<open>Image store\<close>

text \<open>
  \<open>c.isalnum()\<close> on one code point. On ASCII it holds of the digits and the letters. Beyond
  ASCII it is read from the Unicode character database of the Python runtime, a table that
  is not part of this repository: the model takes it as the parameter \<open>U\<close>.
\<close>

definition ascii_alnum :: "nat \<Rightarrow> bool" where
  "ascii_alnum c \<longleftrightarrow> (48 \<le> c \<and> c \<le> 57) \<or> (65 \<le> c \<and> c \<le> 90) \<or> (97 \<le> c \<and> c \<le> 122)"

definition isalnum :: "(nat \<Rightarrow> bool) \<Rightarrow> nat \<Rightarrow> bool" where
  "isalnum U c = (if c < 128 then ascii_alnum c else U c)"

text \<open>\<open>s.replace(a, b)\<close> for one-character strings \<open>a\<close> and \<open>b\<close>.\<close>

definition replace_char :: "nat \<Rightarrow> nat \<Rightarrow> pystr \<Rightarrow> pystr" where
  "replace_char a b s = map (\<lambda>c. if c = a then b else c) s"

text \<open>\<open>s.split(sep)\<close> for a one-character separator: never the empty list.\<close>

fun split_on :: "nat \<Rightarrow> pystr \<Rightarrow> pystr list" where
  "split_on sep [] = [[]]"
| "split_on sep (c # cs) =
     (if c = sep then [] # split_on sep cs
      else (case split_on sep cs of p # ps \<Rightarrow> (c # p) # ps | [] \<Rightarrow> [[c]]))"

subsection \<open>MD5\<close>

text \<open>
  \<open>hashlib.md5(data).hexdigest()\<close>, after RFC 1321: the message is padded with the byte
  \<open>0x80\<close>, zero bytes up to 56 modulo 64 and its length in bits as a 64-bit little-endian
  number; each block of sixteen little-endian 32-bit words goes through 64 steps; the
  digest is the four state words in little-endian bytes, written in lower-case hexadecimal.
\<close>

type_synonym byte = "8 word"
type_synonym u32 = "32 word"

definition md5_K :: "u32 list" where
  "md5_K =
     [0xd76aa478, 0xe8c7b756, 0x242070db, 0xc1bdceee, 0xf57c0faf, 0x4787c62a,
      0xa8304613, 0xfd469501, 0x698098d8, 0x8b44f7af, 0xffff5bb1, 0x895cd7be,
      0x6b901122, 0xfd987193, 0xa679438e, 0x49b40821, 0xf61e2562, 0xc040b340,
      0x265e5a51, 0xe9b6c7aa, 0xd62f105d, 0x2441453, 0xd8a1e681, 0xe7d3fbc8,
      0x21e1cde6, 0xc33707d6, 0xf4d50d87, 0x455a14ed, 0xa9e3e905, 0xfcefa3f8,
      0x676f02d9, 0x8d2a4c8a, 0xfffa3942, 0x8771f681, 0x6d9d6122, 0xfde5380c,
      0xa4beea44, 0x4bdecfa9, 0xf6bb4b60, 0xbebfbc70, 0x289b7ec6, 0xeaa127fa,
      0xd4ef3085, 0x4881d05, 0xd9d4d039, 0xe6db99e5, 0x1fa27cf8, 0xc4ac5665,
      0xf4292244, 0x432aff97, 0xab9423a7, 0xfc93a039, 0x655b59c3, 0x8f0ccc92,
      0xffeff47d, 0x85845dd1, 0x6fa87e4f, 0xfe2ce6e0, 0xa3014314, 0x4e0811a1,
      0xf7537e82, 0xbd3af235, 0x2ad7d2bb, 0xeb86d391]"

definition md5_s :: "nat list" where
  "md5_s =
     [7, 12, 17, 22, 7, 12, 17, 22, 7, 12, 17, 22, 7, 12, 17, 22,
      5, 9, 14, 20, 5, 9, 14, 20, 5, 9, 14, 20, 5, 9, 14, 20,
      4, 11, 16, 23, 4, 11, 16, 23, 4, 11, 16, 23, 4, 11, 16, 23,
      6, 10, 15, 21, 6, 10, 15, 21, 6, 10, 15, 21, 6, 10, 15, 21]"

definition rotl32 :: "u32 \<Rightarrow> nat \<Rightarrow> u32" where
  "rotl32 x c = push_bit c x OR drop_bit (32 - c) x"

definition u32_of_le :: "byte list \<Rightarrow> u32" where
  "u32_of_le bs = foldr (\<lambda>b w. ucast b OR push_bit 8 w) bs 0"

definition le_of_u32 :: "u32 \<Rightarrow> byte list" where
  "le_of_u32 w = map (\<lambda>i. ucast (drop_bit (8 * i) w)) [0..<4]"

definition le_of_u64 :: "64 word \<Rightarrow> byte list" where
  "le_of_u64 w = map (\<lambda>i. ucast (drop_bit (8 * i) w)) [0..<8]"

fun chunks :: "nat \<Rightarrow> 'a list \<Rightarrow> 'a list list" where
  "chunks n xs = (if n = 0 \<or> xs = [] then [] else take n xs # chunks n (drop n xs))"

declare chunks.simps [simp del]

definition md5_pad :: "byte list \<Rightarrow> byte list" where
  "md5_pad m =
     m @ [0x80] @ replicate ((119 - length m mod 64) mod 64) 0 @
     le_of_u64 (word_of_nat (8 * length m))"

type_synonym md5_state = "u32 \<times> u32 \<times> u32 \<times> u32"

definition md5_step :: "u32 list \<Rightarrow> md5_state \<Rightarrow> nat \<Rightarrow> md5_state" where
  "md5_step M st i =
     (case st of (a, b, c, d) \<Rightarrow>
        let (f, g) =
              (if i < 16 then ((b AND c) OR (NOT b AND d), i)
               else if i < 32 then ((d AND b) OR (NOT d AND c), (5 * i + 1) mod 16)
               else if i < 48 then (b XOR c XOR d, (3 * i + 5) mod 16)
               else (c XOR (b OR NOT d), (7 * i) mod 16));
            f = f + a + md5_K ! i + M ! g
        in (d, b + rotl32 f (md5_s ! i), b, c))"

definition md5_block :: "md5_state \<Rightarrow> byte list \<Rightarrow> md5_state" where
  "md5_block st block =
     (let M = map u32_of_le (chunks 4 block) in
      case (st, foldl (md5_step M) st [0..<64]) of
        ((a0, b0, c0, d0), (a, b, c, d)) \<Rightarrow> (a0 + a, b0 + b, c0 + c, d0 + d))"

definition md5_init :: md5_state where
  "md5_init = (0x67452301, 0xefcdab89, 0x98badcfe, 0x10325476)"

definition md5_digest :: "byte list \<Rightarrow> byte list" where
  "md5_digest m =
     (case foldl md5_block md5_init (chunks 64 (md5_pad m)) of
        (a, b, c, d) \<Rightarrow> concat (map le_of_u32 [a, b, c, d]))"

definition hex_digit :: "nat \<Rightarrow> nat" where
  "hex_digit n = (if n < 10 then 48 + n else 87 + n)"

definition hex_byte :: "byte \<Rightarrow> pystr" where
  "hex_byte b = [hex_digit (unat b div 16), hex_digit (unat b mod 16)]"

definition md5_hexdigest :: "byte list \<Rightarrow> pystr" where
  "md5_hexdigest m = concat (map hex_byte (md5_digest m))"

subsection \<open>File names\<close>

text \<open>
  An uploaded file (Streamlit's \<open>UploadedFile\<close>): its name and its bytes. Such an object is
  always true in a condition; \<open>if image_file\<close> fails for \<open>None\<close> only.
\<close>

record uploaded_file =
  upload_name :: pystr
  getvalue :: "byte list"

text \<open>
  \<^verbatim>\<open>
  file_hash = hashlib.md5(image_file.getvalue()).hexdigest()[:8]
  safe_name = "".join(c for c in recipe_name
                      if c.isalnum() or c in (' ', '-', '_')).strip()
  safe_name = safe_name.replace(' ', '_')
  extension = image_file.name.split('.')[-1]
  filename = f"{safe_name}_{file_hash}.{extension}"
  \<close>
\<close>

definition file_hash :: "uploaded_file \<Rightarrow> pystr" where
  "file_hash image_file = take 8 (md5_hexdigest (getvalue image_file))"

definition safe_name :: "(nat \<Rightarrow> bool) \<Rightarrow> pystr \<Rightarrow> pystr" where
  "safe_name U recipe_name =
     (let safe = strip (filter (\<lambda>c. isalnum U c \<or> c \<in> set (ascii '' -_'')) recipe_name)
      in replace_char (of_char CHR '' '') (of_char CHR ''_'') safe)"

definition extension :: "uploaded_file \<Rightarrow> pystr" where
  "extension image_file = last (split_on (of_char CHR ''.'') (upload_name image_file))"

definition filename_of :: "(nat \<Rightarrow> bool) \<Rightarrow> uploaded_file \<Rightarrow> pystr \<Rightarrow> pystr" where
  "filename_of U image_file recipe_name =
     safe_name U recipe_name @ ascii ''_'' @ file_hash image_file @ ascii ''.'' @
     extension image_file"

section \<open>Recipe records and the tabular file\<close>

text \<open>
  The dictionary \<open>recipe_data\<close> has twelve fixed keys, which are the columns of
  \<open>recipes.csv\<close>. A dictionary or a row of a \<open>DataFrame\<close> maps each column to a value; a
  line of the file maps each column to the text of its field. The quoting layer of the CSV
  format is not modelled: the file is the table of field texts that \<open>to_csv\<close> writes and
  \<open>read_csv\<close> tokenizes, under the header of the twelve column names.
\<close>

datatype column =
  Name | Language | Region | Ingredients | Instructions | PrepTime | CookTime | TotalTime
  | Servings | Difficulty | ImageFilename | DateAdded

definition all_columns :: "column list" where
  "all_columns =
     [Name, Language, Region, Ingredients, Instructions, PrepTime, CookTime, TotalTime,
      Servings, Difficulty, ImageFilename, DateAdded]"

fun column_name :: "column \<Rightarrow> pystr" where
  "column_name Name = ascii ''name''"
| "column_name Language = ascii ''language''"
| "column_name Region = ascii ''region''"
| "column_name Ingredients = ascii ''ingredients''"
| "column_name Instructions = ascii ''instructions''"
| "column_name PrepTime = ascii ''prep_time_minutes''"
| "column_name CookTime = ascii ''cook_time_minutes''"
| "column_name TotalTime = ascii ''total_time_minutes''"
| "column_name Servings = ascii ''servings''"
| "column_name Difficulty = ascii ''difficulty''"
| "column_name ImageFilename = ascii ''image_filename''"
| "column_name DateAdded = ascii ''date_added''"

text \<open>
  The values a cell holds: Python's \<open>None\<close>, the missing value \<open>NaN\<close>, an integer, a
  floating-point number, a boolean, a string. Floating-point arithmetic is not modelled: a
  float is kept as the field text it was read from.
\<close>

datatype cell = NoneV | NaN | IntV int | FloatV pystr | BoolV bool | StrV pystr

datatype dtype = Int64 | UInt64 | Float64 | BoolT | ObjectT

type_synonym row = "column \<Rightarrow> cell"
type_synonym csv_row = "column \<Rightarrow> pystr"

record dataframe =
  columns :: "column list"
  dtypes :: "column \<Rightarrow> dtype"
  rows :: "row list"

text \<open>\<open>pd.DataFrame()\<close>: no columns and no rows.\<close>

definition empty_frame :: dataframe where
  "empty_frame = \<lparr>columns = [], dtypes = (\<lambda>c. ObjectT), rows = []\<rparr>"

text \<open>
  What the Python runtime and pandas bring and this repository does not hold: the
  alphanumeric property of the code points beyond ASCII, which field texts pandas'
  tokenizer reads as a floating-point number, and the text \<open>to_csv\<close> writes for the
  number read from such a text.
\<close>

record runtime =
  unicode_alnum :: "nat \<Rightarrow> bool"
  is_float :: "pystr \<Rightarrow> bool"
  float_repr :: "pystr \<Rightarrow> pystr"

subsection \<open>Integers as text\<close>

fun digits :: "nat \<Rightarrow> pystr" where
  "digits n = (if n < 10 then [48 + n] else digits (n div 10) @ [48 + n mod 10])"

declare digits.simps [simp del]

text \<open>\<open>str(i)\<close> for an integer.\<close>

definition str_int :: "int \<Rightarrow> pystr" where
  "str_int i = (if i < 0 then of_char CHR ''-'' # digits (nat (- i)) else digits (nat i))"

definition is_digit :: "nat \<Rightarrow> bool" where
  "is_digit c \<longleftrightarrow> 48 \<le> c \<and> c \<le> 57"

definition ascii_space :: "nat \<Rightarrow> bool" where
  "ascii_space c \<longleftrightarrow> c = 32 \<or> (9 \<le> c \<and> c \<le> 13)"

text \<open>
  pandas' integer conversion of a field: white space around it is skipped, a sign may come
  first, and at least one digit and nothing but digits must follow.
\<close>

definition int_sign_digits :: "pystr \<Rightarrow> bool \<times> pystr" where
  "int_sign_digits t =
     (let b = rev (dropWhile ascii_space (rev (dropWhile ascii_space t))) in
      case b of
        [] \<Rightarrow> (False, [])
      | c # cs \<Rightarrow>
          if c = of_char CHR ''-'' then (True, cs)
          else if c = of_char CHR ''+'' then (False, cs)
          else (False, b))"

definition is_int_token :: "pystr \<Rightarrow> bool" where
  "is_int_token t = (case int_sign_digits t of (neg, ds) \<Rightarrow> ds \<noteq> [] \<and> list_all is_digit ds)"

definition digits_value :: "pystr \<Rightarrow> nat" where
  "digits_value ds = foldl (\<lambda>a c. 10 * a + (c - 48)) 0 ds"

definition int_of_token :: "pystr \<Rightarrow> int" where
  "int_of_token t =
     (case int_sign_digits t of (neg, ds) \<Rightarrow>
        if neg then - int (digits_value ds) else int (digits_value ds))"

definition in_int64 :: "int \<Rightarrow> bool" where
  "in_int64 i \<longleftrightarrow> - (2 ^ 63) \<le> i \<and> i < 2 ^ 63"

definition in_uint64 :: "int \<Rightarrow> bool" where
  "in_uint64 i \<longleftrightarrow> 0 \<le> i \<and> i < 2 ^ 64"

subsection \<open>Reading the file: missing values and column types\<close>

text \<open>The field texts \<open>read_csv\<close> takes for a missing value by default.\<close>

definition na_values :: "pystr list" where
  "na_values =
     [[], ascii ''#N/A'', ascii ''#N/A N/A'', ascii ''#NA'', ascii ''-1.#IND'',
      ascii ''-1.#QNAN'', ascii ''-NaN'', ascii ''-nan'', ascii ''1.#IND'', ascii ''1.#QNAN'',
      ascii ''<NA>'', ascii ''N/A'', ascii ''NA'', ascii ''NULL'', ascii ''NaN'', ascii ''None'',
      ascii ''n/a'', ascii ''nan'', ascii ''null'']"

definition is_na :: "pystr \<Rightarrow> bool" where
  "is_na t \<longleftrightarrow> t \<in> set na_values"

definition true_values :: "pystr list" where
  "true_values = [ascii ''True'', ascii ''TRUE'', ascii ''true'']"

definition false_values :: "pystr list" where
  "false_values = [ascii ''False'', ascii ''FALSE'', ascii ''false'']"

definition is_bool_token :: "pystr \<Rightarrow> bool" where
  "is_bool_token t \<longleftrightarrow> t \<in> set true_values \<or> t \<in> set false_values"

text \<open>
  The type \<open>read_csv\<close> gives a column, from all its fields: integers when every field is one
  and none is missing, floats when every field that is not missing reads as a number (and
  when all are missing), booleans when all are boolean words, and Python objects (the
  texts as they are) otherwise.
\<close>

definition infer_dtype :: "runtime \<Rightarrow> pystr list \<Rightarrow> dtype" where
  "infer_dtype R toks =
     (let vals = filter (\<lambda>t. \<not> is_na t) toks in
      if toks = [] then ObjectT
      else if vals = [] then Float64
      else if length vals = length toks \<and> list_all is_int_token vals then
        (if list_all (\<lambda>t. in_int64 (int_of_token t)) vals then Int64
         else if list_all (\<lambda>t. in_uint64 (int_of_token t)) vals then UInt64
         else ObjectT)
      else if list_all (is_float R) vals then Float64
      else if list_all is_bool_token vals then BoolT
      else ObjectT)"

fun convert :: "dtype \<Rightarrow> pystr \<Rightarrow> cell" where
  "convert Int64 t = (if is_na t then NaN else IntV (int_of_token t))"
| "convert UInt64 t = (if is_na t then NaN else IntV (int_of_token t))"
| "convert Float64 t = (if is_na t then NaN else FloatV t)"
| "convert BoolT t = (if is_na t then NaN else BoolV (t \<in> set true_values))"
| "convert ObjectT t = (if is_na t then NaN else StrV t)"

definition read_csv :: "runtime \<Rightarrow> csv_row list \<Rightarrow> dataframe" where
  "read_csv R file =
     (let t = (\<lambda>c. infer_dtype R (map (\<lambda>line. line c) file)) in
      \<lparr>columns = all_columns, dtypes = t,
       rows = map (\<lambda>line c. convert (t c) (line c)) file\<rparr>)"

subsection \<open>Writing the file\<close>

text \<open>
  The exceptions that leave the functions modelled here: \<open>UnicodeEncodeError\<close> and
  \<open>ValueError\<close> of Python, and \<open>OSError\<close>, which stands for the class and so for its
  subclasses \<open>FileNotFoundError\<close>, \<open>NotADirectoryError\<close> and \<open>IsADirectoryError\<close> too.
\<close>

datatype error = UnicodeEncodeError | ValueError | OSError

text \<open>The text \<open>to_csv\<close> writes for a cell: nothing for a missing value.\<close>

fun render :: "runtime \<Rightarrow> cell \<Rightarrow> pystr" where
  "render R NoneV = []"
| "render R NaN = []"
| "render R (IntV i) = str_int i"
| "render R (FloatV t) = float_repr R t"
| "render R (BoolV b) = (if b then ascii ''True'' else ascii ''False'')"
| "render R (StrV s) = s"

text \<open>
  \<open>df.to_csv(DATA_FILE, index=False)\<close> opens the file for writing, which empties it, and
  writes the header and then the lines one by one, encoded in UTF-8. A line with a
  surrogate code point cannot be encoded: \<open>UnicodeEncodeError\<close> is raised at that line, and
  the file is left with the lines written before it.
\<close>

definition unicode_scalar :: "nat \<Rightarrow> bool" where
  "unicode_scalar c \<longleftrightarrow> c < 0xD800 \<or> (0xDFFF < c \<and> c < 0x110000)"

definition utf8_line :: "csv_row \<Rightarrow> bool" where
  "utf8_line l = list_all (\<lambda>c. list_all unicode_scalar (l c)) all_columns"

definition to_csv :: "runtime \<Rightarrow> dataframe \<Rightarrow> error option \<times> csv_row list" where
  "to_csv R df =
     (let lines = map (\<lambda>r c. render R (r c)) (rows df) in
      if list_all utf8_line lines then (None, lines)
      else (Some UnicodeEncodeError, takeWhile utf8_line lines))"

subsection \<open>Building and concatenating frames\<close>

text \<open>\<open>pd.DataFrame([d])\<close> for a dictionary \<open>d\<close>: one row, each column typed by its value.\<close>

fun value_dtype :: "cell \<Rightarrow> dtype" where
  "value_dtype (IntV i) = (if in_int64 i then Int64 else if in_uint64 i then UInt64 else ObjectT)"
| "value_dtype (FloatV t) = Float64"
| "value_dtype NaN = Float64"
| "value_dtype (BoolV b) = BoolT"
| "value_dtype (StrV s) = ObjectT"
| "value_dtype NoneV = ObjectT"

definition frame_of_dict :: "row \<Rightarrow> dataframe" where
  "frame_of_dict d = \<lparr>columns = all_columns, dtypes = (\<lambda>c. value_dtype (d c)), rows = [d]\<rparr>"

text \<open>
  \<open>pd.concat([a, b], ignore_index=True)\<close> on frames of the same columns: the rows of \<open>a\<close>,
  then those of \<open>b\<close>. A column of two different numeric types becomes a float column,
  whose integers turn into floats; any other mix becomes a column of objects, whose values
  stay as they are.
\<close>

definition numeric :: "dtype \<Rightarrow> bool" where
  "numeric t \<longleftrightarrow> t = Int64 \<or> t = UInt64 \<or> t = Float64"

definition common_dtype :: "dtype \<Rightarrow> dtype \<Rightarrow> dtype" where
  "common_dtype a b = (if a = b then a else if numeric a \<and> numeric b then Float64 else ObjectT)"

fun upcast :: "dtype \<Rightarrow> cell \<Rightarrow> cell" where
  "upcast Float64 (IntV i) = FloatV (str_int i)"
| "upcast t v = v"

definition concat_frames :: "dataframe \<Rightarrow> dataframe \<Rightarrow> dataframe" where
  "concat_frames a b =
     (if columns a = [] then b
      else if columns b = [] then a
      else
        let t = (\<lambda>c. common_dtype (dtypes a c) (dtypes b c)) in
        \<lparr>columns = columns a, dtypes = t,
         rows = map (\<lambda>r c. upcast (t c) (r c)) (rows a @ rows b)\<rparr>)"

section \<open>The state of the application\<close>

text \<open>
  What the functions read and write: the file \<open>recipes.csv\<close> (absent or its lines), the
  directory \<open>recipe_images\<close> (absent, or its files in the order a listing gives them), the
  cache of \<open>load_existing_data\<close> (\<open>st.cache_data\<close>), the cache of \<open>initialize_hf_api\<close>
  (\<open>st.cache_resource\<close>, by token) and, to observe the calls made to the Hugging Face hub,
  the tokens \<open>login\<close> was called with and the \<open>upload_file\<close> calls, in order.
\<close>

datatype hf_api = HfApi

datatype login_result = LoginTrue | LoginError pystr

record upload_call =
  path_or_fileobj :: pystr
  path_in_repo :: pystr
  repo_id :: pystr
  repo_type :: pystr
  token :: pystr

record world =
  data_file :: "csv_row list option"
  images_dir :: "(pystr \<times> byte list) list option"
  load_cache :: "dataframe option"
  api_cache :: "(pystr \<times> hf_api option \<times> login_result) list"
  logins :: "pystr list"
  sent :: "upload_call list"

text \<open>
  The hub, as the application sees it: \<open>login\<close> raises (with a message) or not, for a token;
  the \<open>n\<close>-th \<open>upload_file\<close> call of the process raises (with a message) or not.
\<close>

record hub =
  login :: "pystr \<Rightarrow> pystr option"
  upload_file :: "nat \<Rightarrow> upload_call \<Rightarrow> pystr option"

definition DATA_FILE :: pystr where
  "DATA_FILE = ascii ''recipes.csv''"

definition IMAGES_DIR :: pystr where
  "IMAGES_DIR = ascii ''recipe_images''"

text \<open>\<open>Path(IMAGES_DIR).mkdir(exist_ok=True)\<close>, run when the script starts.\<close>

definition mkdir_images :: "world \<Rightarrow> world" where
  "mkdir_images s = (case images_dir s of None \<Rightarrow> s\<lparr>images_dir := Some []\<rparr> | Some fs \<Rightarrow> s)"

section \<open>Recipe repository\<close>

text \<open>
  \<^verbatim>\<open>
  @st.cache_data
  def load_existing_data():
      if os.path.exists(DATA_FILE):
          return pd.read_csv(DATA_FILE)
      return pd.DataFrame()
  \<close>
  The decorator returns the cached value when there is one and stores the value otherwise.
\<close>

definition load_existing_data :: "runtime \<Rightarrow> world \<Rightarrow> dataframe \<times> world" where
  "load_existing_data R s =
     (case load_cache s of
        Some df \<Rightarrow> (df, s)
      | None \<Rightarrow>
          let df = (case data_file s of Some file \<Rightarrow> read_csv R file | None \<Rightarrow> empty_frame)
          in (df, s\<lparr>load_cache := Some df\<rparr>))"

text \<open>
  \<^verbatim>\<open>
  def save_recipe_locally(recipe_data):
      df_new = pd.DataFrame([recipe_data])
      if os.path.exists(DATA_FILE):
          df_existing = pd.read_csv(DATA_FILE)
          df = pd.concat([df_existing, df_new], ignore_index=True)
      else:
          df = df_new
      df.to_csv(DATA_FILE, index=False)
      load_existing_data.clear()
  \<close>
\<close>

definition save_recipe_locally :: "runtime \<Rightarrow> row \<Rightarrow> world \<Rightarrow> error option \<times> world" where
  "save_recipe_locally R recipe_data s =
     (let df_new = frame_of_dict recipe_data;
          df = (case data_file s of
                  Some file \<Rightarrow> concat_frames (read_csv R file) df_new
                | None \<Rightarrow> df_new)
      in case to_csv R df of
           (Some e, written) \<Rightarrow> (Some e, s\<lparr>data_file := Some written\<rparr>)
         | (None, written) \<Rightarrow> (None, s\<lparr>data_file := Some written, load_cache := None\<rparr>))"

section \<open>Saving an image\<close>

text \<open>Writing a file of the directory: an existing file of that name is overwritten.\<close>

fun write_file :: "pystr \<Rightarrow> byte list \<Rightarrow> (pystr \<times> byte list) list \<Rightarrow> (pystr \<times> byte list) list" where
  "write_file n d [] = [(n, d)]"
| "write_file n d ((n', d') # fs) =
     (if n' = n then (n, d) # fs else (n', d') # write_file n d fs)"

text \<open>
  \<^verbatim>\<open>
  def save_image(image_file, recipe_name):
      if image_file:
          ...
          filepath = os.path.join(IMAGES_DIR, filename)
          with open(filepath, "wb") as f:
              f.write(image_file.getvalue())
          return filename
      return None
  \<close>
  \<open>open\<close> raises before the file is created or changed: \<open>UnicodeEncodeError\<close> when the
  path cannot be encoded for the file system (UTF-8 with the \<open>surrogateescape\<close> handler:
  a lone surrogate outside U+DC80 to U+DCFF cannot), \<open>ValueError\<close> when the path holds
  a NUL, and an \<open>OSError\<close> when the directory \<open>recipe_images\<close> does not exist, when the
  file name holds a \<open>/\<close> (the directory holds files only, so the path leads through a
  directory that does not exist, through a file, or ends in a \<open>/\<close>) and when the file name
  is longer than the 255 bytes a file name can have. Failures that depend on the machine
  only (a full disk, a directory that is not writable) are not modelled.
\<close>

definition encodable :: "nat \<Rightarrow> bool" where
  "encodable c \<longleftrightarrow>
     c < 0x110000 \<and> (c < 0xD800 \<or> 0xDFFF < c \<or> (0xDC80 \<le> c \<and> c \<le> 0xDCFF))"

text \<open>The number of bytes of a code point in the encoding of the file system.\<close>

definition fs_bytes :: "nat \<Rightarrow> nat" where
  "fs_bytes c =
     (if c < 0x80 then 1 else if c < 0x800 then 2
      else if 0xDC80 \<le> c \<and> c \<le> 0xDCFF then 1
      else if c < 0x10000 then 3 else 4)"

definition fs_length :: "pystr \<Rightarrow> nat" where
  "fs_length n = sum_list (map fs_bytes n)"

definition NAME_MAX :: nat where
  "NAME_MAX = 255"

definition save_image ::
  "runtime \<Rightarrow> uploaded_file option \<Rightarrow> pystr \<Rightarrow> world \<Rightarrow> error + (pystr option \<times> world)" where
  "save_image R image_file recipe_name s =
     (case image_file of
        None \<Rightarrow> Inr (None, s)
      | Some f \<Rightarrow>
          let filename = filename_of (unicode_alnum R) f recipe_name in
          if \<not> list_all encodable filename then Inl UnicodeEncodeError
          else if 0 \<in> set filename then Inl ValueError
          else
            (case images_dir s of
               None \<Rightarrow> Inl OSError
             | Some files \<Rightarrow>
                 if of_char CHR ''/'' \<in> set filename \<or> NAME_MAX < fs_length filename
                 then Inl OSError
                 else Inr (Some filename,
                           s\<lparr>images_dir := Some (write_file filename (getvalue f) files)\<rparr>)))"

section \<open>The form\<close>

record form =
  form_name :: pystr
  form_language :: pystr
  form_region :: pystr
  form_ingredients :: pystr
  form_instructions :: pystr
  form_prep_time :: int
  form_cook_time :: int
  form_servings :: int
  form_difficulty :: pystr
  form_image :: "uploaded_file option"

text \<open>
  The dictionary built from the inputs of the form (lines 248 to 261); \<open>now\<close> is the text
  of \<open>datetime.now().strftime("%Y-%m-%d %H:%M:%S")\<close>.
\<close>

fun recipe_data :: "form \<Rightarrow> pystr option \<Rightarrow> pystr \<Rightarrow> row" where
  "recipe_data f image_filename now Name = StrV (strip (form_name f))"
| "recipe_data f image_filename now Language = StrV (form_language f)"
| "recipe_data f image_filename now Region =
     StrV (if form_region f \<noteq> [] then strip (form_region f) else [])"
| "recipe_data f image_filename now Ingredients = StrV (strip (form_ingredients f))"
| "recipe_data f image_filename now Instructions = StrV (strip (form_instructions f))"
| "recipe_data f image_filename now PrepTime = IntV (form_prep_time f)"
| "recipe_data f image_filename now CookTime = IntV (form_cook_time f)"
| "recipe_data f image_filename now TotalTime = IntV (form_prep_time f + form_cook_time f)"
| "recipe_data f image_filename now Servings = IntV (form_servings f)"
| "recipe_data f image_filename now Difficulty = StrV (form_difficulty f)"
| "recipe_data f image_filename now ImageFilename =
     (case image_filename of None \<Rightarrow> NoneV | Some n \<Rightarrow> StrV n)"
| "recipe_data f image_filename now DateAdded = StrV now"

text \<open>
  The handler of the form (lines 236 to 266): the errors of the validator, or the image
  and the record saved; an exception of \<open>save_image\<close> or \<open>save_recipe_locally\<close> is not
  caught.
\<close>

definition submit ::
  "runtime \<Rightarrow> form \<Rightarrow> pystr \<Rightarrow> world \<Rightarrow> (error + pystr list) \<times> world" where
  "submit R f now s =
     (let errors = validate_recipe_data (Some (form_name f)) (Some (form_ingredients f))
                     (Some (form_instructions f)) in
      if errors \<noteq> [] then (Inr errors, s)
      else
        (case save_image R (form_image f) (form_name f) s of
           Inl e \<Rightarrow> (Inl e, s)
         | Inr (image_filename, s1) \<Rightarrow>
             (case save_recipe_locally R (recipe_data f image_filename now) s1 of
                (Some e, s2) \<Rightarrow> (Inl e, s2)
              | (None, s2) \<Rightarrow> (Inr [], s2))))"

section \<open>Uploader\<close>

text \<open>
  \<^verbatim>\<open>
  @st.cache_resource
  def initialize_hf_api(token):
      try:
          login(token=token)
          return HfApi(), True
      except Exception as e:
          return None, str(e)
  \<close>
  The result is cached by token, a failure as well as a success.
\<close>

definition initialize_hf_api ::
  "hub \<Rightarrow> pystr \<Rightarrow> world \<Rightarrow> (hf_api option \<times> login_result) \<times> world" where
  "initialize_hf_api H tok s =
     (case map_of (api_cache s) tok of
        Some r \<Rightarrow> (r, s)
      | None \<Rightarrow>
          let r = (case login H tok of
                     None \<Rightarrow> (Some HfApi, LoginTrue)
                   | Some e \<Rightarrow> (None, LoginError e))
          in (r, s\<lparr>api_cache := (tok, r) # api_cache s, logins := logins s @ [tok]\<rparr>))"

text \<open>One \<open>api.upload_file\<close> call: the exception it raises, if any, and the call recorded.\<close>

definition api_upload_file :: "hub \<Rightarrow> upload_call \<Rightarrow> world \<Rightarrow> pystr option \<times> world" where
  "api_upload_file H call s = (upload_file H (length (sent s)) call, s\<lparr>sent := sent s @ [call]\<rparr>)"

definition dataset_call :: "pystr \<Rightarrow> pystr \<Rightarrow> upload_call" where
  "dataset_call repo tok =
     \<lparr>path_or_fileobj = DATA_FILE, path_in_repo = ascii ''recipes.csv'', repo_id = repo,
      repo_type = ascii ''dataset'', token = tok\<rparr>"

definition image_call :: "pystr \<Rightarrow> pystr \<Rightarrow> pystr \<Rightarrow> upload_call" where
  "image_call repo tok img_name =
     \<lparr>path_or_fileobj = IMAGES_DIR @ ascii ''/'' @ img_name,
      path_in_repo = ascii ''images/'' @ img_name, repo_id = repo,
      repo_type = ascii ''dataset'', token = tok\<rparr>"

text \<open>The loop over the image files: an exception ends it.\<close>

fun upload_images :: "hub \<Rightarrow> pystr \<Rightarrow> pystr \<Rightarrow> pystr list \<Rightarrow> world \<Rightarrow> pystr option \<times> world" where
  "upload_images H repo tok [] s = (None, s)"
| "upload_images H repo tok (img # imgs) s =
     (case api_upload_file H (image_call repo tok img) s of
        (Some e, s1) \<Rightarrow> (Some e, s1)
      | (None, s1) \<Rightarrow> upload_images H repo tok imgs s1)"

fun str_login_result :: "login_result \<Rightarrow> pystr" where
  "str_login_result LoginTrue = ascii ''True''"
| "str_login_result (LoginError e) = e"

text \<open>
  \<^verbatim>\<open>
  def upload_to_huggingface(repo_id, token, include_images=False):
      if not os.path.exists(DATA_FILE):
          return False, "No local dataset found."
      api, login_result = initialize_hf_api(token)
      if not api:
          return False, f"Login failed: {login_result}"
      try:
          api.upload_file(path_or_fileobj=DATA_FILE, path_in_repo="recipes.csv", ...)
          if include_images and os.path.exists(IMAGES_DIR):
              image_files = list(Path(IMAGES_DIR).glob("*"))
              if image_files:
                  for img_file in image_files:
                      api.upload_file(path_or_fileobj=str(img_file),
                                      path_in_repo=f"images/{img_file.name}", ...)
          return True, f"Dataset uploaded successfully to: https://huggingface.co/datasets/{repo_id}"
      except Exception as e:
          return False, f"Upload failed: {str(e)}"
  \<close>
\<close>

definition upload_to_huggingface ::
  "hub \<Rightarrow> pystr \<Rightarrow> pystr \<Rightarrow> bool \<Rightarrow> world \<Rightarrow> (bool \<times> pystr) \<times> world" where
  "upload_to_huggingface H repo tok include_images s =
     (let uploaded = (True, ascii ''Dataset uploaded successfully to: https://huggingface.co/datasets/'' @ repo) in
      if data_file s = None then ((False, ascii ''No local dataset found.''), s)
      else
        (case initialize_hf_api H tok s of
           ((None, login_result), s1) \<Rightarrow>
             ((False, ascii ''Login failed: '' @ str_login_result login_result), s1)
         | ((Some api, login_result), s1) \<Rightarrow>
             (case api_upload_file H (dataset_call repo tok) s1 of
                (Some e, s2) \<Rightarrow> ((False, ascii ''Upload failed: '' @ e), s2)
              | (None, s2) \<Rightarrow>
                  if include_images \<and> images_dir s2 \<noteq> None then
                    let image_files = map fst (the (images_dir s2)) in
                    if image_files \<noteq> [] then
                      (case upload_images H repo tok image_files s2 of
                         (Some e, s3) \<Rightarrow> ((False, ascii ''Upload failed: '' @ e), s3)
                       | (None, s3) \<Rightarrow> (uploaded, s3))
                    else (uploaded, s2)
                  else (uploaded, s2))))"

section \<open>The specification's wording, and sample values\<close>

text \<open>
  The file name as section 4.2 of the specification words it, to be compared with the
  code's: an 8-character digest of the bytes; the display name with only alphanumerics,
  spaces, hyphens and underscores kept, trimmed, its spaces replaced by underscores; then
  name, underscore, digest, dot and the original extension.
\<close>

definition is_hex :: "nat \<Rightarrow> bool" where
  "is_hex c \<longleftrightarrow> (48 \<le> c \<and> c \<le> 57) \<or> (97 \<le> c \<and> c \<le> 102)"

definition spec_digest :: "byte list \<Rightarrow> pystr" where
  "spec_digest bytes = take 8 (md5_hexdigest bytes)"

definition spec_sanitize :: "(nat \<Rightarrow> bool) \<Rightarrow> pystr \<Rightarrow> pystr" where
  "spec_sanitize U display_name =
     map (\<lambda>c. if c = of_char CHR '' '' then of_char CHR ''_'' else c)
       (strip (filter (\<lambda>c. isalnum U c \<or> c = of_char CHR '' '' \<or> c = of_char CHR ''-''
                            \<or> c = of_char CHR ''_'') display_name))"

definition spec_filename :: "(nat \<Rightarrow> bool) \<Rightarrow> byte list \<Rightarrow> pystr \<Rightarrow> pystr \<Rightarrow> pystr" where
  "spec_filename U bytes display_name original_extension =
     spec_sanitize U display_name @ ascii ''_'' @ spec_digest bytes @ ascii ''.'' @
     original_extension"

text \<open>
  A name under which a file can be created in a directory of files: it can be encoded, it
  holds no NUL and no \<open>/\<close>, and it has at most 255 bytes.
\<close>

definition valid_file_name :: "pystr \<Rightarrow> bool" where
  "valid_file_name n \<longleftrightarrow>
     list_all encodable n \<and> 0 \<notin> set n \<and> of_char CHR ''/'' \<notin> set n \<and> fs_length n \<le> NAME_MAX"

text \<open>
  The transmissions section 4.4 of the specification lists: the tabular file, then, if
  images are requested and the image directory exists, each of its files under the
  \<open>images/\<close> prefix.
\<close>

definition image_names :: "bool \<Rightarrow> world \<Rightarrow> pystr list" where
  "image_names include_images s =
     (if include_images then (case images_dir s of None \<Rightarrow> [] | Some files \<Rightarrow> map fst files)
      else [])"

definition upload_plan :: "pystr \<Rightarrow> pystr \<Rightarrow> bool \<Rightarrow> world \<Rightarrow> upload_call list" where
  "upload_plan repo tok include_images s =
     dataset_call repo tok # map (image_call repo tok) (image_names include_images s)"

text \<open>
  The records the tabular file keeps as they are. A text is plain when \<open>read_csv\<close> takes it
  neither for a missing value nor for a number nor for a boolean, and when it can be
  encoded. A record can be stored when its four numbers of minutes and servings are
  integers of 64 bits and each of its other values is \<open>None\<close>, the empty text or a plain
  text. Appending a sequence of records is appending them one after the other, until an
  append fails.
\<close>

definition plain_text :: "runtime \<Rightarrow> pystr \<Rightarrow> bool" where
  "plain_text R t \<longleftrightarrow>
     \<not> is_na t \<and> \<not> is_int_token t \<and> \<not> is_float R t \<and> \<not> is_bool_token t
     \<and> list_all unicode_scalar t"

fun is_int_column :: "column \<Rightarrow> bool" where
  "is_int_column PrepTime = True"
| "is_int_column CookTime = True"
| "is_int_column TotalTime = True"
| "is_int_column Servings = True"
| "is_int_column c = False"

fun storable_cell :: "runtime \<Rightarrow> bool \<Rightarrow> cell \<Rightarrow> bool" where
  "storable_cell R True (IntV i) = in_int64 i"
| "storable_cell R False NoneV = True"
| "storable_cell R False (StrV t) = (t = [] \<or> plain_text R t)"
| "storable_cell R b v = False"

definition storable :: "runtime \<Rightarrow> row \<Rightarrow> bool" where
  "storable R d = list_all (\<lambda>c. storable_cell R (is_int_column c) (d c)) all_columns"

fun append_all :: "runtime \<Rightarrow> row list \<Rightarrow> world \<Rightarrow> error option \<times> world" where
  "append_all R [] s = (None, s)"
| "append_all R (d # ds) s =
     (case save_recipe_locally R d s of
        (Some e, s1) \<Rightarrow> (Some e, s1)
      | (None, s1) \<Rightarrow> append_all R ds s1)"

text \<open>
  Values to run the model on. A runtime that knows the letters of Latin-1 and of Devanagari
  beyond ASCII, reads plain decimal notation as a float and writes such a number back as it
  was read; a hub that accepts the tokens that start with \<open>hf_\<close> and every transmission,
  and one whose second transmission fails; the state of a first start in an empty
  directory, a form filled in and an uploaded image.
\<close>

definition sample_alnum :: "nat \<Rightarrow> bool" where
  "sample_alnum c \<longleftrightarrow>
     (192 \<le> c \<and> c \<le> 255 \<and> c \<noteq> 215 \<and> c \<noteq> 247) \<or> (2308 \<le> c \<and> c \<le> 2361)"

definition decimal_float :: "pystr \<Rightarrow> bool" where
  "decimal_float t =
     (case int_sign_digits t of (neg, ds) \<Rightarrow>
        list_all (\<lambda>c. is_digit c \<or> c = of_char CHR ''.'') ds \<and> list_ex is_digit ds
        \<and> length (filter (\<lambda>c. c = of_char CHR ''.'') ds) \<le> 1)"

definition sample_runtime :: runtime where
  "sample_runtime =
     \<lparr>unicode_alnum = sample_alnum, is_float = decimal_float, float_repr = (\<lambda>t. t)\<rparr>"

definition sample_hub :: hub where
  "sample_hub =
     \<lparr>login = (\<lambda>tok. if take 3 tok = ascii ''hf_'' then None else Some (ascii ''Invalid token'')),
      upload_file = (\<lambda>n call. None)\<rparr>"

definition flaky_hub :: hub where
  "flaky_hub =
     \<lparr>login = (\<lambda>tok. if take 3 tok = ascii ''hf_'' then None else Some (ascii ''Invalid token'')),
      upload_file = (\<lambda>n call. if n = 1 then Some (ascii ''Connection reset'') else None)\<rparr>"

definition fresh_world :: world where
  "fresh_world =
     \<lparr>data_file = None, images_dir = None, load_cache = None, api_cache = [], logins = [],
      sent = []\<rparr>"

definition sample_form :: form where
  "sample_form =
     \<lparr>form_name = ascii ''Dal'', form_language = ascii ''Telugu'', form_region = [],
      form_ingredients = ascii ''rice, dal, water, salt'',
      form_instructions = ascii ''boil everything together for twenty minutes'',
      form_prep_time = 20, form_cook_time = 40, form_servings = 4,
      form_difficulty = ascii ''Easy'', form_image = None\<rparr>"

definition other_form :: form where
  "other_form =
     \<lparr>form_name = ascii ''Idli'', form_language = ascii ''Tamil'',
      form_region = ascii ''Tamil Nadu'',
      form_ingredients = ascii ''rice, urad dal, salt'',
      form_instructions = ascii ''soak, grind, ferment overnight and steam'',
      form_prep_time = 30, form_cook_time = 15, form_servings = 6,
      form_difficulty = ascii ''Medium'', form_image = None\<rparr>"

definition sample_now :: pystr where
  "sample_now = ascii ''2024-01-01 10:00:00''"

definition sample_image :: uploaded_file where
  "sample_image = \<lparr>upload_name = ascii ''biryani.jpg'', getvalue = [97, 98, 99]\<rparr>"

text \<open>The state after one recipe was saved, with two image files in the directory.\<close>

definition sample_world :: world where
  "sample_world =
     (snd (save_recipe_locally sample_runtime (recipe_data sample_form None sample_now)
             fresh_world))
       \<lparr>images_dir := Some [(ascii ''Dal_90015098.jpg'', [97, 98, 99]),
                             (ascii ''Idli_0cc175b9.png'', [97])]\<rparr>"

section \<open>Properties of the validator\<close>

lemma strip_Nil: "strip [] = []"
  by (simp add: strip_def)

lemma too_short_iff: "0 < n \<Longrightarrow> too_short x n \<longleftrightarrow> trimmed_length x < n"
  by (cases x) (auto simp: strip_Nil)

lemma validation_messages_distinct:
  "name_error \<noteq> ingredients_error" "name_error \<noteq> instructions_error"
  "ingredients_error \<noteq> instructions_error"
  by (simp_all add: name_error_def ingredients_error_def instructions_error_def)

lemma validate_recipe_data_eq:
  "validate_recipe_data name ingredients instructions =
     (if trimmed_length name < 3 then [name_error] else []) @
     (if trimmed_length ingredients < 10 then [ingredients_error] else []) @
     (if trimmed_length instructions < 20 then [instructions_error] else [])"
  by (simp add: validate_recipe_data_def too_short_iff)

text \<open>
  C2. For every input, absent and empty strings included (their length is 0),
  \<open>validate_recipe_data\<close> reports the name exactly when its trimmed length is below 3, the
  ingredients exactly when theirs is below 10 and the instructions exactly when theirs is
  below 20. The three rules are checked independently, each violated rule contributing its
  own message, and the result is empty exactly when all three rules pass.
\<close>

theorem validate_recipe_data_rules:
  "(name_error \<in> set (validate_recipe_data name ingredients instructions)
      \<longleftrightarrow> trimmed_length name < 3) \<and>
   (ingredients_error \<in> set (validate_recipe_data name ingredients instructions)
      \<longleftrightarrow> trimmed_length ingredients < 10) \<and>
   (instructions_error \<in> set (validate_recipe_data name ingredients instructions)
      \<longleftrightarrow> trimmed_length instructions < 20) \<and>
   (validate_recipe_data name ingredients instructions = []
      \<longleftrightarrow> 3 \<le> trimmed_length name \<and> 10 \<le> trimmed_length ingredients
          \<and> 20 \<le> trimmed_length instructions) \<and>
   length (validate_recipe_data name ingredients instructions) =
     (if trimmed_length name < 3 then 1 else 0) +
     (if trimmed_length ingredients < 10 then 1 else 0) +
     (if trimmed_length instructions < 20 then 1 else 0) \<and>
   set (validate_recipe_data name ingredients instructions)
     \<subseteq> {name_error, ingredients_error, instructions_error}"
  using validation_messages_distinct by (auto simp: validate_recipe_data_eq)

text \<open>The two examples of the specification, and an absent name.\<close>

lemma validate_recipe_data_accepts:
  "validate_recipe_data (Some (ascii ''Dal'')) (Some (ascii ''rice, dal, water, salt''))
     (Some (ascii ''boil everything together for twenty minutes'')) = []"
  by (simp add: validate_recipe_data_def strip_def isspace_def)

lemma validate_recipe_data_rejects:
  "validate_recipe_data (Some (ascii ''Hi'')) (Some (ascii ''salt''))
     (Some (ascii ''boil it'')) = [name_error, ingredients_error, instructions_error]"
  by (simp add: validate_recipe_data_def strip_def isspace_def)

lemma validate_recipe_data_absent:
  "validate_recipe_data None (Some (ascii ''   rice   ''))
     (Some (ascii ''boil everything together for twenty minutes''))
     = [name_error, ingredients_error]"
  by (simp add: validate_recipe_data_def strip_def isspace_def)

section \<open>Properties of the image store\<close>

lemma set_strip_subset: "set (strip s) \<subseteq> set s"
proof -
  have "set (dropWhile isspace (rev (dropWhile isspace s))) \<subseteq> set (rev (dropWhile isspace s))"
    by (meson set_dropWhileD subsetI)
  moreover have "set (dropWhile isspace s) \<subseteq> set s"
    by (meson set_dropWhileD subsetI)
  ultimately show ?thesis by (auto simp: strip_def)
qed

lemma isalnum_ascii_facts:
  "\<not> isalnum U (of_char CHR ''/'')" "\<not> isalnum U (of_char CHR ''.'')"
  "\<not> isalnum U 92" "\<not> isalnum U (of_char CHR '' '')" "\<not> isalnum U 0"
  "\<not> isalnum U (of_char CHR ''_'')" "\<not> isalnum U (of_char CHR ''-'')" "\<not> isalnum U (of_char CHR '':'')"
  by (simp_all add: isalnum_def ascii_alnum_def)

lemma split_on_nonempty: "split_on sep s \<noteq> []"
  by (induction s) (auto split: list.splits)

lemma last_split_on_no_sep: "sep \<notin> set (last (split_on sep s))"
proof (induction s)
  case Nil
  show ?case by simp
next
  case (Cons c cs)
  obtain p ps where eq: "split_on sep cs = p # ps"
    using split_on_nonempty[of sep cs] by (cases "split_on sep cs") auto
  show ?case
  proof (cases "c = sep")
    case True
    with Cons eq show ?thesis by simp
  next
    case False
    with Cons eq show ?thesis by (cases ps) auto
  qed
qed

lemma safe_name_chars:
  "c \<in> set (safe_name U n) \<Longrightarrow> isalnum U c \<or> c = of_char CHR ''-'' \<or> c = of_char CHR ''_''"
proof -
  let ?keep = "\<lambda>c. isalnum U c \<or> c \<in> set (ascii '' -_'')"
  assume "c \<in> set (safe_name U n)"
  then have "c \<in> (\<lambda>c. if c = of_char CHR '' '' then of_char CHR ''_'' else c) ` set (strip (filter ?keep n))"
    unfolding safe_name_def replace_char_def Let_def set_map .
  then obtain d where d: "d \<in> set (strip (filter ?keep n))"
    and c: "c = (if d = of_char CHR '' '' then of_char CHR ''_'' else d)"
    by blast
  from d have "d \<in> set (filter ?keep n)"
    using set_strip_subset by blast
  then have "?keep d" by simp
  then have "isalnum U d \<or> d = of_char CHR '' '' \<or> d = of_char CHR ''-'' \<or> d = of_char CHR ''_''"
    by auto
  with c show ?thesis by (cases "d = of_char CHR '' ''") simp_all
qed

lemma length_le_of_u32: "length (le_of_u32 w) = 4"
  by (simp add: le_of_u32_def)

lemma length_md5_digest: "length (md5_digest m) = 16"
  by (simp add: md5_digest_def length_le_of_u32 split: prod.splits)

lemma length_hex_byte: "length (hex_byte b) = 2"
  by (simp add: hex_byte_def)

lemma length_concat_hex: "length (concat (map hex_byte bs)) = 2 * length bs"
  by (induction bs) (simp_all add: length_hex_byte)

lemma length_md5_hexdigest: "length (md5_hexdigest m) = 32"
  by (simp add: md5_hexdigest_def length_concat_hex length_md5_digest)

lemma hex_digit_is_hex: "n < 16 \<Longrightarrow> is_hex (hex_digit n)"
  by (auto simp: is_hex_def hex_digit_def)

lemma hex_byte_is_hex: "list_all is_hex (hex_byte b)"
proof -
  have "unat b div 16 < 16"
    using unsigned_less[of b, where 'a = nat] by simp
  moreover have "unat b mod 16 < 16" by simp
  ultimately show ?thesis
    by (simp add: hex_byte_def hex_digit_is_hex)
qed

lemma concat_hex_byte_is_hex: "list_all is_hex (concat (map hex_byte bs))"
  by (induction bs) (simp_all add: hex_byte_is_hex)

lemma md5_hexdigest_is_hex: "list_all is_hex (md5_hexdigest m)"
  by (simp add: md5_hexdigest_def concat_hex_byte_is_hex)

lemma length_file_hash: "length (file_hash f) = 8"
  by (simp add: file_hash_def length_md5_hexdigest)

lemma file_hash_is_hex: "list_all is_hex (file_hash f)"
  using md5_hexdigest_is_hex[of "getvalue f"]
  by (auto simp: file_hash_def list_all_iff dest: in_set_takeD)

lemma eq_after_last_sep:
  assumes "xs @ [c] @ e1 = ys @ [c] @ e2" "c \<notin> set e1" "c \<notin> set e2"
  shows "xs = ys \<and> e1 = e2"
proof -
  have "takeWhile (\<lambda>x. x \<noteq> c) (rev (xs @ [c] @ e1)) = rev e1"
    using assms(2) by (auto simp: takeWhile_tail)
  moreover have "takeWhile (\<lambda>x. x \<noteq> c) (rev (ys @ [c] @ e2)) = rev e2"
    using assms(3) by (auto simp: takeWhile_tail)
  ultimately have "e1 = e2" using assms(1) by (metis rev_rev_ident)
  with assms(1) show ?thesis by simp
qed

lemma filename_of_eq_iff:
  "filename_of U f1 n1 = filename_of U f2 n2 \<longleftrightarrow>
     safe_name U n1 = safe_name U n2 \<and> file_hash f1 = file_hash f2 \<and> extension f1 = extension f2"
proof
  assume eq: "filename_of U f1 n1 = filename_of U f2 n2"
  have e: "of_char CHR ''.'' \<notin> set (extension f1)" "of_char CHR ''.'' \<notin> set (extension f2)"
    unfolding extension_def by (rule last_split_on_no_sep)+
  from eq have "(safe_name U n1 @ ascii ''_'' @ file_hash f1) @ [of_char CHR ''.''] @ extension f1
      = (safe_name U n2 @ ascii ''_'' @ file_hash f2) @ [of_char CHR ''.''] @ extension f2"
    by (simp add: filename_of_def)
  from eq_after_last_sep[OF this e]
  have 1: "safe_name U n1 @ ascii ''_'' @ file_hash f1 = safe_name U n2 @ ascii ''_'' @ file_hash f2"
    and 2: "extension f1 = extension f2" by simp_all
  from 1 have "(safe_name U n1 @ ascii ''_'') @ file_hash f1 = (safe_name U n2 @ ascii ''_'') @ file_hash f2"
    by simp
  then have "safe_name U n1 @ ascii ''_'' = safe_name U n2 @ ascii ''_'' \<and> file_hash f1 = file_hash f2"
    by (subst (asm) append_eq_append_conv) (simp_all add: length_file_hash)
  with 2 show "safe_name U n1 = safe_name U n2 \<and> file_hash f1 = file_hash f2 \<and> extension f1 = extension f2"
    by simp
next
  assume "safe_name U n1 = safe_name U n2 \<and> file_hash f1 = file_hash f2 \<and> extension f1 = extension f2"
  then show "filename_of U f1 n1 = filename_of U f2 n2"
    by (simp add: filename_of_def)
qed


lemma split_on_no_sep: "sep \<notin> set s \<Longrightarrow> split_on sep s = [s]"
  by (induction s) auto

lemma split_on_sep_length: "sep \<in> set s \<Longrightarrow> 2 \<le> length (split_on sep s)"
proof (induction s)
  case Nil
  then show ?case by simp
next
  case (Cons c cs)
  obtain p ps where eq: "split_on sep cs = p # ps"
    using split_on_nonempty[of sep cs] by (cases "split_on sep cs") auto
  show ?case
  proof (cases "c = sep")
    case True
    with eq show ?thesis by simp
  next
    case False
    with Cons have "2 \<le> length (split_on sep cs)" by simp
    with eq False show ?thesis by simp
  qed
qed

lemma last_split_on:
  "last (split_on sep s) = rev (takeWhile (\<lambda>c. c \<noteq> sep) (rev s))"
proof (induction s)
  case Nil
  show ?case by simp
next
  case (Cons c cs)
  obtain p ps where eq: "split_on sep cs = p # ps"
    using split_on_nonempty[of sep cs] by (cases "split_on sep cs") auto
  show ?case
  proof (cases "sep \<in> set cs")
    case True
    then have "2 \<le> length (split_on sep cs)" by (rule split_on_sep_length)
    with eq have ps: "ps \<noteq> []" by auto
    from True have tw: "takeWhile (\<lambda>c. c \<noteq> sep) (rev cs @ [c]) = takeWhile (\<lambda>c. c \<noteq> sep) (rev cs)"
      by (auto simp: takeWhile_append)
    from eq ps have "last (split_on sep (c # cs)) = last (split_on sep cs)"
      by auto
    with Cons tw show ?thesis by simp
  next
    case False
    then have "split_on sep cs = [cs]" by (rule split_on_no_sep)
    moreover from False have "takeWhile (\<lambda>c. c \<noteq> sep) (rev cs @ [c]) = rev cs @ takeWhile (\<lambda>c. c \<noteq> sep) [c]"
      by (auto simp: takeWhile_append)
    ultimately show ?thesis by auto
  qed
qed

lemma extension_after_last_dot:
  "extension f = rev (takeWhile (\<lambda>c. c \<noteq> of_char CHR ''.'') (rev (upload_name f)))"
  by (simp add: extension_def last_split_on)

lemma safe_name_spec: "safe_name U n = spec_sanitize U n"
proof -
  have "(\<lambda>c. isalnum U c \<or> c \<in> set (ascii '' -_'')) =
        (\<lambda>c. isalnum U c \<or> c = of_char CHR '' '' \<or> c = of_char CHR ''-'' \<or> c = of_char CHR ''_'')"
    by auto
  then show ?thesis
    by (simp add: safe_name_def spec_sanitize_def replace_char_def)
qed

lemma filename_of_spec:
  "filename_of U f n = spec_filename U (getvalue f) n (extension f)"
  by (simp add: filename_of_def spec_filename_def safe_name_spec file_hash_def spec_digest_def)

lemma write_file_idem: "write_file n d (write_file n d fs) = write_file n d fs"
  by (induction fs) auto

lemma map_of_write_file: "map_of (write_file n d fs) n = Some d"
  by (induction fs) auto

lemma save_image_valid:
  "images_dir s = Some files \<Longrightarrow> valid_file_name (filename_of (unicode_alnum R) f n) \<Longrightarrow>
   save_image R (Some f) n s
     = Inr (Some (filename_of (unicode_alnum R) f n),
            s\<lparr>images_dir := Some (write_file (filename_of (unicode_alnum R) f n) (getvalue f) files)\<rparr>)"
  by (simp add: save_image_def valid_file_name_def Let_def)

lemma save_image_Inr_iff:
  "save_image R (Some f) n s = Inr (r, s1) \<longleftrightarrow>
     images_dir s \<noteq> None \<and> valid_file_name (filename_of (unicode_alnum R) f n)
     \<and> r = Some (filename_of (unicode_alnum R) f n)
     \<and> s1 = s\<lparr>images_dir := Some (write_file (filename_of (unicode_alnum R) f n) (getvalue f)
                                    (the (images_dir s)))\<rparr>"
  by (cases "images_dir s") (auto simp: save_image_def valid_file_name_def Let_def)

lemma sample_filename:
  "filename_of (unicode_alnum sample_runtime) sample_image (ascii ''Hyderabadi Biryani!'')
     = ascii ''Hyderabadi_Biryani_90015098.jpg''"
  by code_simp


text \<open>
  C10. For every display name, names made of special characters only included, each
  character of the sanitized name that \<open>save_image\<close> puts at the head of the file name is
  alphanumeric, a hyphen or an underscore: no slash, no backslash, no dot, no space and no
  NUL, so this part of the file name cannot lead the write out of the image directory.
\<close>

theorem safe_name_is_path_safe:
  "\<forall>c \<in> set (safe_name U recipe_name).
     (isalnum U c \<or> c = of_char CHR ''-'' \<or> c = of_char CHR ''_'') \<and>
     c \<noteq> of_char CHR ''/'' \<and> c \<noteq> of_char CHR ''.'' \<and> c \<noteq> 92 \<and> c \<noteq> of_char CHR '' ''
     \<and> c \<noteq> 0"
proof
  fix c assume "c \<in> set (safe_name U recipe_name)"
  then have ok: "isalnum U c \<or> c = of_char CHR ''-'' \<or> c = of_char CHR ''_''"
    by (rule safe_name_chars)
  moreover from ok have "c \<noteq> of_char CHR ''/''" using isalnum_ascii_facts(1)[of U] by auto
  moreover from ok have "c \<noteq> of_char CHR ''.''" using isalnum_ascii_facts(2)[of U] by auto
  moreover from ok have "c \<noteq> 92" using isalnum_ascii_facts(3)[of U] by auto
  moreover from ok have "c \<noteq> of_char CHR '' ''" using isalnum_ascii_facts(4)[of U] by auto
  moreover from ok have "c \<noteq> 0" using isalnum_ascii_facts(5)[of U] by (cases "c = 0") auto
  ultimately show "(isalnum U c \<or> c = of_char CHR ''-'' \<or> c = of_char CHR ''_'') \<and>
     c \<noteq> of_char CHR ''/'' \<and> c \<noteq> of_char CHR ''.'' \<and> c \<noteq> 92 \<and> c \<noteq> of_char CHR '' ''
     \<and> c \<noteq> 0" by blast
qed

lemma sample_safe_names:
  "safe_name sample_alnum (ascii ''../../etc/passwd'') = ascii ''etcpasswd''"
  "safe_name sample_alnum (ascii ''!!! ???'') = []"
  by (simp_all add: safe_name_def replace_char_def strip_def isspace_def isalnum_def
      ascii_alnum_def)

theorem safe_name_is_path_safe_witness:
  "safe_name sample_alnum (ascii ''../../etc/passwd'') = ascii ''etcpasswd'' \<and>
   of_char CHR ''/'' \<notin> set (safe_name sample_alnum (ascii ''../../etc/passwd'')) \<and>
   of_char CHR ''.'' \<notin> set (safe_name sample_alnum (ascii ''../../etc/passwd''))"
  using safe_name_is_path_safe[of sample_alnum "ascii ''../../etc/passwd''"] sample_safe_names(1)
  by auto

text \<open>
  C3, as amended. For every byte content, display name and uploaded file name, the file
  name \<open>save_image\<close> computes is that of the specification: the sanitized name
  (alphanumerics, spaces, hyphens and underscores kept, trimmed, spaces replaced by
  underscores), an underscore, the first 8 hexadecimal characters of the MD5 digest of the
  bytes, a dot and the original extension, which is the text after the last dot of the
  uploaded file's name. When the image directory exists and this file name is valid (it
  can be encoded, holds no NUL and no \<open>/\<close>, and has at most 255 bytes), \<open>save_image\<close> writes
  the bytes under it and returns it; otherwise it raises. Two uploads with identical bytes
  and identical original extension, stored under the identical display name, get the
  identical file name, and the second store returns that name again and leaves the
  directory as the first store left it.
\<close>

theorem save_image_filename:
  "filename_of (unicode_alnum R) f recipe_name
     = spec_filename (unicode_alnum R) (getvalue f) recipe_name (extension f)
   \<and> length (spec_digest (getvalue f)) = 8
   \<and> list_all is_hex (spec_digest (getvalue f))
   \<and> extension f = rev (takeWhile (\<lambda>c. c \<noteq> of_char CHR ''.'') (rev (upload_name f)))
   \<and> (images_dir s = Some files \<and> valid_file_name (filename_of (unicode_alnum R) f recipe_name)
        \<longrightarrow> save_image R (Some f) recipe_name s
              = Inr (Some (filename_of (unicode_alnum R) f recipe_name),
                     s\<lparr>images_dir := Some (write_file (filename_of (unicode_alnum R) f recipe_name)
                                              (getvalue f) files)\<rparr>)
            \<and> map_of (write_file (filename_of (unicode_alnum R) f recipe_name) (getvalue f) files)
                  (filename_of (unicode_alnum R) f recipe_name) = Some (getvalue f))
   \<and> (images_dir s = None \<or> \<not> valid_file_name (filename_of (unicode_alnum R) f recipe_name)
        \<longrightarrow> (\<exists>e. save_image R (Some f) recipe_name s = Inl e))
   \<and> (getvalue f' = getvalue f \<and> extension f' = extension f
        \<longrightarrow> filename_of (unicode_alnum R) f' recipe_name
              = filename_of (unicode_alnum R) f recipe_name
            \<and> (\<forall>r s1. save_image R (Some f) recipe_name s = Inr (r, s1)
                   \<longrightarrow> save_image R (Some f') recipe_name s1 = Inr (r, s1)))"
proof -
  let ?n = "filename_of (unicode_alnum R) f recipe_name"
  have 1: "?n = spec_filename (unicode_alnum R) (getvalue f) recipe_name (extension f)"
    by (rule filename_of_spec)
  have 2: "length (spec_digest (getvalue f)) = 8"
    using length_file_hash[of f] by (simp add: file_hash_def spec_digest_def)
  have 3: "list_all is_hex (spec_digest (getvalue f))"
    using file_hash_is_hex[of f] by (simp add: file_hash_def spec_digest_def)
  have 4: "extension f = rev (takeWhile (\<lambda>c. c \<noteq> of_char CHR ''.'') (rev (upload_name f)))"
    by (rule extension_after_last_dot)
  have 5: "images_dir s = Some files \<and> valid_file_name ?n
        \<longrightarrow> save_image R (Some f) recipe_name s
              = Inr (Some ?n, s\<lparr>images_dir := Some (write_file ?n (getvalue f) files)\<rparr>)
            \<and> map_of (write_file ?n (getvalue f) files) ?n = Some (getvalue f)"
    by (simp add: save_image_valid map_of_write_file)
  have 6: "images_dir s = None \<or> \<not> valid_file_name ?n
        \<longrightarrow> (\<exists>e. save_image R (Some f) recipe_name s = Inl e)"
    using save_image_Inr_iff[of R f recipe_name s] by (cases "save_image R (Some f) recipe_name s") auto
  have 7: "getvalue f' = getvalue f \<and> extension f' = extension f
        \<longrightarrow> filename_of (unicode_alnum R) f' recipe_name = ?n
            \<and> (\<forall>r s1. save_image R (Some f) recipe_name s = Inr (r, s1)
                   \<longrightarrow> save_image R (Some f') recipe_name s1 = Inr (r, s1))"
  proof (intro impI conjI allI)
    assume eq: "getvalue f' = getvalue f \<and> extension f' = extension f"
    then show n: "filename_of (unicode_alnum R) f' recipe_name = ?n"
      by (simp add: filename_of_def file_hash_def)
    fix r s1
    assume "save_image R (Some f) recipe_name s = Inr (r, s1)"
    then have "images_dir s \<noteq> None" and v: "valid_file_name ?n"
      and r: "r = Some ?n"
      and s1: "s1 = s\<lparr>images_dir := Some (write_file ?n (getvalue f) (the (images_dir s)))\<rparr>"
      using save_image_Inr_iff[of R f recipe_name s r s1] by auto
    have "images_dir s1 = Some (write_file ?n (getvalue f) (the (images_dir s)))"
      using s1 by simp
    with v n eq have "save_image R (Some f') recipe_name s1
        = Inr (Some ?n, s1\<lparr>images_dir := Some (write_file ?n (getvalue f)
                              (write_file ?n (getvalue f) (the (images_dir s))))\<rparr>)"
      using save_image_valid[of s1 _ R f' recipe_name] by simp
    then show "save_image R (Some f') recipe_name s1 = Inr (r, s1)"
      using r s1 by (simp add: write_file_idem)
  qed
  from 1 2 3 4 5 6 7 show ?thesis by blast
qed

lemma sample_valid_file_name: "valid_file_name (ascii ''Hyderabadi_Biryani_90015098.jpg'')"
  by (simp add: valid_file_name_def encodable_def fs_length_def fs_bytes_def NAME_MAX_def)

lemma sample_extension: "extension sample_image = ascii ''jpg''"
  by code_simp

lemma other_sample_extension:
  "extension \<lparr>upload_name = ascii ''IMG.0042.jpg'', getvalue = [97, 98, 99]\<rparr> = ascii ''jpg''"
  by code_simp

theorem save_image_filename_witness:
  "images_dir (mkdir_images fresh_world) = Some []
   \<and> valid_file_name (ascii ''Hyderabadi_Biryani_90015098.jpg'')
   \<and> save_image sample_runtime (Some sample_image) (ascii ''Hyderabadi Biryani!'')
         (mkdir_images fresh_world)
       = Inr (Some (ascii ''Hyderabadi_Biryani_90015098.jpg''),
              (mkdir_images fresh_world)
                \<lparr>images_dir := Some [(ascii ''Hyderabadi_Biryani_90015098.jpg'', [97, 98, 99])]\<rparr>)
   \<and> save_image sample_runtime
         (Some \<lparr>upload_name = ascii ''IMG.0042.jpg'', getvalue = [97, 98, 99]\<rparr>)
         (ascii ''Hyderabadi Biryani!'')
         ((mkdir_images fresh_world)
            \<lparr>images_dir := Some [(ascii ''Hyderabadi_Biryani_90015098.jpg'', [97, 98, 99])]\<rparr>)
       = Inr (Some (ascii ''Hyderabadi_Biryani_90015098.jpg''),
              (mkdir_images fresh_world)
                \<lparr>images_dir := Some [(ascii ''Hyderabadi_Biryani_90015098.jpg'', [97, 98, 99])]\<rparr>)
   \<and> images_dir fresh_world = None
   \<and> (\<exists>e. save_image sample_runtime (Some sample_image) (ascii ''Hyderabadi Biryani!'')
              fresh_world = Inl e)"
proof -
  let ?f' = "\<lparr>upload_name = ascii ''IMG.0042.jpg'', getvalue = [97, 98, 99]\<rparr>"
  let ?n = "ascii ''Hyderabadi_Biryani_90015098.jpg''"
  let ?s1 = "(mkdir_images fresh_world)\<lparr>images_dir := Some [(?n, [97, 98, 99])]\<rparr>"
  have h: "images_dir (mkdir_images fresh_world) = Some []"
    by (simp add: mkdir_images_def fresh_world_def)
  have h0: "images_dir fresh_world = None"
    by (simp add: fresh_world_def)
  have g1: "getvalue ?f' = getvalue sample_image"
    by (simp add: sample_image_def)
  have g2: "extension ?f' = extension sample_image"
    by (simp only: sample_extension other_sample_extension)
  note g = g1 g2
  have b: "getvalue sample_image = [97, 98, 99]"
    by (simp add: sample_image_def)
  have a: "save_image sample_runtime (Some sample_image) (ascii ''Hyderabadi Biryani!'')
         (mkdir_images fresh_world) = Inr (Some ?n, ?s1)"
    using save_image_filename[of sample_runtime sample_image "ascii ''Hyderabadi Biryani!''"
        "mkdir_images fresh_world" "[]" ?f'] h sample_valid_file_name
    by (simp only: sample_filename b write_file.simps simp_thms)
  have c: "save_image sample_runtime (Some ?f') (ascii ''Hyderabadi Biryani!'') ?s1
         = Inr (Some ?n, ?s1)"
    using save_image_filename[of sample_runtime sample_image "ascii ''Hyderabadi Biryani!''"
        "mkdir_images fresh_world" "[]" ?f'] g a
    by blast
  have d: "\<exists>e. save_image sample_runtime (Some sample_image) (ascii ''Hyderabadi Biryani!'')
              fresh_world = Inl e"
    using save_image_filename[of sample_runtime sample_image "ascii ''Hyderabadi Biryani!''"
        fresh_world "[]" sample_image] h0
    by blast
  from h sample_valid_file_name a c h0 d show ?thesis by blast
qed

text \<open>
  The claim as stated fails. The same bytes stored under the same display name get two
  different file names when the uploaded files are named \<open>photo.jpg\<close> and \<open>photo.jpeg\<close>;
  and for a display name of 300 letters \<open>save_image\<close> produces no file name: the file name
  has 313 bytes and \<open>open\<close> raises.
\<close>

lemma photo_filenames:
  "filename_of (unicode_alnum sample_runtime)
     \<lparr>upload_name = ascii ''photo.jpg'', getvalue = [97, 98, 99]\<rparr> (ascii ''Dal'')
     = ascii ''Dal_90015098.jpg''"
  "filename_of (unicode_alnum sample_runtime)
     \<lparr>upload_name = ascii ''photo.jpeg'', getvalue = [97, 98, 99]\<rparr> (ascii ''Dal'')
     = ascii ''Dal_90015098.jpeg''"
  by code_simp+

lemma length_le_fs_length: "length n \<le> fs_length n"
  by (induction n) (auto simp: fs_length_def fs_bytes_def)

lemma safe_name_letters:
  "safe_name U (replicate k (of_char CHR ''a'')) = replicate k (of_char CHR ''a'')"
  by (simp add: safe_name_def strip_def isspace_def isalnum_def ascii_alnum_def replace_char_def)

lemma is_hex_encodable: "is_hex c \<Longrightarrow> encodable c \<and> c \<noteq> 0"
  by (auto simp: is_hex_def encodable_def)

lemma long_name_raises:
  "save_image sample_runtime (Some sample_image) (replicate 300 (of_char CHR ''a''))
     (mkdir_images fresh_world) = Inl OSError"
proof -
  let ?n = "filename_of (unicode_alnum sample_runtime) sample_image (replicate 300 (of_char CHR ''a''))"
  have h: "images_dir (mkdir_images fresh_world) = Some []"
    by (simp add: mkdir_images_def fresh_world_def)
  have n: "?n = replicate 300 (of_char CHR ''a'') @ ascii ''_'' @ file_hash sample_image @ ascii ''.jpg''"
    using safe_name_letters[of "unicode_alnum sample_runtime" 300]
    by (simp add: filename_of_def sample_extension)
  have hx: "\<forall>c \<in> set (file_hash sample_image). encodable c \<and> c \<noteq> 0"
    using file_hash_is_hex[of sample_image] is_hex_encodable by (auto simp: list_all_iff)
  have 1: "list_all encodable ?n"
    unfolding n using hx by (auto simp: list_all_iff encodable_def)
  have 2: "0 \<notin> set ?n"
    unfolding n using hx by auto
  have "300 \<le> length ?n"
    unfolding n by simp
  with length_le_fs_length[of ?n] have 3: "NAME_MAX < fs_length ?n"
    by (simp add: NAME_MAX_def)
  from 1 2 3 h show ?thesis
    by (simp add: save_image_def Let_def)
qed

theorem same_bytes_same_name_other_filename:
  "save_image sample_runtime (Some \<lparr>upload_name = ascii ''photo.jpg'', getvalue = [97, 98, 99]\<rparr>)
     (ascii ''Dal'') (mkdir_images fresh_world)
     = Inr (Some (ascii ''Dal_90015098.jpg''),
            (mkdir_images fresh_world)
              \<lparr>images_dir := Some [(ascii ''Dal_90015098.jpg'', [97, 98, 99])]\<rparr>)
   \<and> save_image sample_runtime (Some \<lparr>upload_name = ascii ''photo.jpeg'', getvalue = [97, 98, 99]\<rparr>)
     (ascii ''Dal'') (mkdir_images fresh_world)
     = Inr (Some (ascii ''Dal_90015098.jpeg''),
            (mkdir_images fresh_world)
              \<lparr>images_dir := Some [(ascii ''Dal_90015098.jpeg'', [97, 98, 99])]\<rparr>)
   \<and> ascii ''Dal_90015098.jpg'' \<noteq> ascii ''Dal_90015098.jpeg''
   \<and> save_image sample_runtime (Some sample_image) (replicate 300 (of_char CHR ''a''))
       (mkdir_images fresh_world) = Inl OSError"
proof -
  have h: "images_dir (mkdir_images fresh_world) = Some []"
    by (simp add: mkdir_images_def fresh_world_def)
  have v: "valid_file_name (ascii ''Dal_90015098.jpg'')" "valid_file_name (ascii ''Dal_90015098.jpeg'')"
    by (simp_all add: valid_file_name_def encodable_def fs_length_def fs_bytes_def NAME_MAX_def)
  have 1: "save_image sample_runtime (Some \<lparr>upload_name = ascii ''photo.jpg'', getvalue = [97, 98, 99]\<rparr>)
     (ascii ''Dal'') (mkdir_images fresh_world)
     = Inr (Some (ascii ''Dal_90015098.jpg''),
            (mkdir_images fresh_world)
              \<lparr>images_dir := Some [(ascii ''Dal_90015098.jpg'', [97, 98, 99])]\<rparr>)"
    using save_image_valid[OF h, of sample_runtime
        "\<lparr>upload_name = ascii ''photo.jpg'', getvalue = [97, 98, 99]\<rparr>" "ascii ''Dal''"] v(1)
    by (simp only: photo_filenames uploaded_file.simps write_file.simps simp_thms)
  have 2: "save_image sample_runtime (Some \<lparr>upload_name = ascii ''photo.jpeg'', getvalue = [97, 98, 99]\<rparr>)
     (ascii ''Dal'') (mkdir_images fresh_world)
     = Inr (Some (ascii ''Dal_90015098.jpeg''),
            (mkdir_images fresh_world)
              \<lparr>images_dir := Some [(ascii ''Dal_90015098.jpeg'', [97, 98, 99])]\<rparr>)"
    using save_image_valid[OF h, of sample_runtime
        "\<lparr>upload_name = ascii ''photo.jpeg'', getvalue = [97, 98, 99]\<rparr>" "ascii ''Dal''"] v(2)
    by (simp only: photo_filenames uploaded_file.simps write_file.simps simp_thms)
  have 3: "ascii ''Dal_90015098.jpg'' \<noteq> ascii ''Dal_90015098.jpeg''"
    by simp
  from 1 2 3 long_name_raises show ?thesis by blast
qed

text \<open>
  C4, as amended. Two calls produce the same file name exactly when their sanitized names,
  their 8-character digests and their extensions coincide. Hence file names are distinct
  whenever the sanitized names, the digests or the extensions differ; names that differ
  only in characters the sanitizer drops, and bytes whose digests share their first 8
  characters, collide.
\<close>

theorem filename_of_collision_iff:
  "filename_of U f1 n1 = filename_of U f2 n2 \<longleftrightarrow>
     safe_name U n1 = safe_name U n2 \<and> file_hash f1 = file_hash f2 \<and> extension f1 = extension f2"
  by (rule filename_of_eq_iff)

text \<open>
  The claim as stated fails: two different names, and two different byte contents, with
  the same file name.
\<close>

lemma colliding_digests:
  "file_hash \<lparr>upload_name = ascii ''a.png'', getvalue = [105, 109, 103, 50, 55, 53, 54, 48]\<rparr>
     = ascii ''2552f507''"
  "file_hash \<lparr>upload_name = ascii ''a.png'', getvalue = [105, 109, 103, 53, 48, 51, 56, 52]\<rparr>
     = ascii ''2552f507''"
  by code_simp+

theorem distinct_inputs_same_filename:
  "ascii ''Biryani!'' \<noteq> ascii ''Biryani'' \<and>
   filename_of sample_alnum sample_image (ascii ''Biryani!'')
     = filename_of sample_alnum sample_image (ascii ''Biryani'') \<and>
   [105, 109, 103, 50, 55, 53, 54, 48] \<noteq> [105, 109, 103, 53, 48, 51, 56, 52 :: byte] \<and>
   filename_of sample_alnum
       \<lparr>upload_name = ascii ''a.png'', getvalue = [105, 109, 103, 50, 55, 53, 54, 48]\<rparr>
       (ascii ''Biryani'')
     = filename_of sample_alnum
       \<lparr>upload_name = ascii ''a.png'', getvalue = [105, 109, 103, 53, 48, 51, 56, 52]\<rparr>
       (ascii ''Biryani'')"
proof -
  have "safe_name sample_alnum (ascii ''Biryani!'') = safe_name sample_alnum (ascii ''Biryani'')"
    by (simp add: safe_name_def replace_char_def strip_def isspace_def isalnum_def
        ascii_alnum_def)
  then have 1: "filename_of sample_alnum sample_image (ascii ''Biryani!'')
     = filename_of sample_alnum sample_image (ascii ''Biryani'')"
    by (simp add: filename_of_eq_iff)
  have "file_hash \<lparr>upload_name = ascii ''a.png'', getvalue = [105, 109, 103, 50, 55, 53, 54, 48]\<rparr>
      = file_hash \<lparr>upload_name = ascii ''a.png'', getvalue = [105, 109, 103, 53, 48, 51, 56, 52]\<rparr>"
    by (simp only: colliding_digests)
  then have 2: "filename_of sample_alnum
       \<lparr>upload_name = ascii ''a.png'', getvalue = [105, 109, 103, 50, 55, 53, 54, 48]\<rparr>
       (ascii ''Biryani'')
     = filename_of sample_alnum
       \<lparr>upload_name = ascii ''a.png'', getvalue = [105, 109, 103, 53, 48, 51, 56, 52]\<rparr>
       (ascii ''Biryani'')"
    by (simp add: filename_of_eq_iff extension_def)
  from 1 2 show ?thesis by simp
qed

section \<open>Properties of the uploader\<close>

lemma initialize_hf_api_local:
  "initialize_hf_api H tok s = (r, s1) \<Longrightarrow>
     data_file s1 = data_file s \<and> images_dir s1 = images_dir s \<and> load_cache s1 = load_cache s
     \<and> sent s1 = sent s"
  by (auto simp: initialize_hf_api_def Let_def split: option.splits)

lemma initialize_hf_api_cached:
  "initialize_hf_api H tok s = (r, s1) \<Longrightarrow> initialize_hf_api H tok s1 = (r, s1)"
  by (auto simp: initialize_hf_api_def Let_def split: option.splits)

lemma initialize_hf_api_hit:
  "initialize_hf_api H tok s = (r, s1) \<Longrightarrow> map_of (api_cache s1) tok = Some r"
  by (auto simp: initialize_hf_api_def Let_def split: option.splits)

lemma upload_images_ok:
  "(\<And>j. j < length imgs \<Longrightarrow>
      upload_file H (length (sent s) + j) (image_call repo tok (imgs ! j)) = None) \<Longrightarrow>
   upload_images H repo tok imgs s
     = (None, s\<lparr>sent := sent s @ map (image_call repo tok) imgs\<rparr>)"
proof (induction imgs arbitrary: s)
  case Nil
  show ?case by simp
next
  case (Cons img imgs)
  let ?s1 = "s\<lparr>sent := sent s @ [image_call repo tok img]\<rparr>"
  have first: "upload_file H (length (sent s)) (image_call repo tok img) = None"
    using Cons.prems[of 0] by simp
  have rest: "upload_file H (length (sent ?s1) + j) (image_call repo tok (imgs ! j)) = None"
    if "j < length imgs" for j
    using Cons.prems[of "Suc j"] that by simp
  have "upload_images H repo tok (img # imgs) s = upload_images H repo tok imgs ?s1"
    by (simp add: api_upload_file_def first)
  also have "\<dots> = (None, ?s1\<lparr>sent := sent ?s1 @ map (image_call repo tok) imgs\<rparr>)"
    by (rule Cons.IH) (rule rest)
  finally show ?case by simp
qed

lemma upload_images_fail:
  "k < length imgs \<Longrightarrow>
   upload_file H (length (sent s) + k) (image_call repo tok (imgs ! k)) = Some e \<Longrightarrow>
   (\<And>j. j < k \<Longrightarrow>
      upload_file H (length (sent s) + j) (image_call repo tok (imgs ! j)) = None) \<Longrightarrow>
   upload_images H repo tok imgs s
     = (Some e, s\<lparr>sent := sent s @ take (Suc k) (map (image_call repo tok) imgs)\<rparr>)"
proof (induction imgs arbitrary: s k)
  case Nil
  then show ?case by simp
next
  case (Cons img imgs)
  let ?s1 = "s\<lparr>sent := sent s @ [image_call repo tok img]\<rparr>"
  show ?case
  proof (cases k)
    case 0
    with Cons.prems(2) show ?thesis by (simp add: api_upload_file_def)
  next
    case (Suc k')
    have first: "upload_file H (length (sent s)) (image_call repo tok img) = None"
      using Cons.prems(3)[of 0] Suc by simp
    have k': "k' < length imgs" using Cons.prems(1) Suc by simp
    have fails: "upload_file H (length (sent ?s1) + k') (image_call repo tok (imgs ! k')) = Some e"
      using Cons.prems(2) Suc by simp
    have before: "upload_file H (length (sent ?s1) + j) (image_call repo tok (imgs ! j)) = None"
      if "j < k'" for j
      using Cons.prems(3)[of "Suc j"] that Suc by simp
    have "upload_images H repo tok (img # imgs) s = upload_images H repo tok imgs ?s1"
      by (simp add: api_upload_file_def first)
    also have "\<dots> = (Some e, ?s1\<lparr>sent := sent ?s1 @ take (Suc k') (map (image_call repo tok) imgs)\<rparr>)"
      using k' fails before by (rule Cons.IH)
    finally show ?thesis using Suc by simp
  qed
qed

lemma upload_after_checks:
  assumes "data_file s \<noteq> None" "initialize_hf_api H tok s = ((Some api, r), s1)"
  shows "upload_to_huggingface H repo tok inc s =
     (case api_upload_file H (dataset_call repo tok) s1 of
        (Some e, s2) \<Rightarrow> ((False, ascii ''Upload failed: '' @ e), s2)
      | (None, s2) \<Rightarrow>
           (case upload_images H repo tok (image_names inc s) s2 of
              (Some e, s3) \<Rightarrow> ((False, ascii ''Upload failed: '' @ e), s3)
            | (None, s3) \<Rightarrow>
                ((True, ascii ''Dataset uploaded successfully to: https://huggingface.co/datasets/'' @ repo), s3)))"
proof -
  have loc: "images_dir s1 = images_dir s"
    using initialize_hf_api_local[OF assms(2)] by simp
  show ?thesis
  proof (cases "upload_file H (length (sent s1)) (dataset_call repo tok)")
    case (Some e)
    with assms show ?thesis
      by (simp add: upload_to_huggingface_def Let_def api_upload_file_def)
  next
    case None
    let ?s2 = "s1\<lparr>sent := sent s1 @ [dataset_call repo tok]\<rparr>"
    have names: "image_names inc s = image_names inc ?s2"
      using loc by (simp add: image_names_def)
    show ?thesis
    proof (cases "image_names inc s = []")
      case True
      with assms None loc show ?thesis
        by (auto simp: upload_to_huggingface_def Let_def api_upload_file_def image_names_def
            split: option.splits if_splits)
    next
      case False
      with assms None loc show ?thesis
        by (auto simp: upload_to_huggingface_def Let_def api_upload_file_def image_names_def
            split: option.splits if_splits prod.splits)
    qed
  qed
qed

lemma upload_all_ok:
  assumes "data_file s \<noteq> None" "initialize_hf_api H tok s = ((Some api, r), s1)"
    and ok: "\<And>j. j < length (upload_plan repo tok inc s) \<Longrightarrow>
           upload_file H (length (sent s) + j) (upload_plan repo tok inc s ! j) = None"
  shows "upload_to_huggingface H repo tok inc s
     = ((True, ascii ''Dataset uploaded successfully to: https://huggingface.co/datasets/'' @ repo),
        s1\<lparr>sent := sent s @ upload_plan repo tok inc s\<rparr>)"
proof -
  let ?imgs = "image_names inc s"
  let ?s2 = "s1\<lparr>sent := sent s1 @ [dataset_call repo tok]\<rparr>"
  have sent1: "sent s1 = sent s"
    using initialize_hf_api_local[OF assms(2)] by simp
  have d: "upload_file H (length (sent s1)) (dataset_call repo tok) = None"
    using ok[of 0] by (simp add: upload_plan_def sent1)
  have imgs: "upload_file H (length (sent ?s2) + j) (image_call repo tok (?imgs ! j)) = None"
    if "j < length ?imgs" for j
    using ok[of "Suc j"] that by (simp add: upload_plan_def sent1)
  have "upload_images H repo tok ?imgs ?s2
      = (None, ?s2\<lparr>sent := sent ?s2 @ map (image_call repo tok) ?imgs\<rparr>)"
    by (rule upload_images_ok) (rule imgs)
  with d show ?thesis
    by (simp add: upload_after_checks[OF assms(1,2)] api_upload_file_def upload_plan_def sent1)
qed

lemma upload_first_failure:
  assumes "data_file s \<noteq> None" "initialize_hf_api H tok s = ((Some api, r), s1)"
    and k: "k < length (upload_plan repo tok inc s)"
    and fails: "upload_file H (length (sent s) + k) (upload_plan repo tok inc s ! k) = Some e"
    and before: "\<And>j. j < k \<Longrightarrow>
           upload_file H (length (sent s) + j) (upload_plan repo tok inc s ! j) = None"
  shows "upload_to_huggingface H repo tok inc s
     = ((False, ascii ''Upload failed: '' @ e),
        s1\<lparr>sent := sent s @ take (Suc k) (upload_plan repo tok inc s)\<rparr>)"
proof -
  let ?imgs = "image_names inc s"
  let ?s2 = "s1\<lparr>sent := sent s1 @ [dataset_call repo tok]\<rparr>"
  have sent1: "sent s1 = sent s"
    using initialize_hf_api_local[OF assms(2)] by simp
  show ?thesis
  proof (cases k)
    case 0
    with fails have "upload_file H (length (sent s1)) (dataset_call repo tok) = Some e"
      by (simp add: upload_plan_def sent1)
    with 0 show ?thesis
      by (simp add: upload_after_checks[OF assms(1,2)] api_upload_file_def upload_plan_def sent1)
  next
    case (Suc k')
    have d: "upload_file H (length (sent s1)) (dataset_call repo tok) = None"
      using before[of 0] Suc by (simp add: upload_plan_def sent1)
    have k': "k' < length ?imgs"
      using k Suc by (simp add: upload_plan_def)
    have f: "upload_file H (length (sent ?s2) + k') (image_call repo tok (?imgs ! k')) = Some e"
      using fails Suc k' by (simp add: upload_plan_def sent1)
    have b: "upload_file H (length (sent ?s2) + j) (image_call repo tok (?imgs ! j)) = None"
      if "j < k'" for j
      using before[of "Suc j"] that Suc k' by (simp add: upload_plan_def sent1)
    have "upload_images H repo tok ?imgs ?s2
      = (Some e, ?s2\<lparr>sent := sent ?s2 @ take (Suc k') (map (image_call repo tok) ?imgs)\<rparr>)"
      using k' f b by (rule upload_images_fail)
    with d Suc show ?thesis
      by (simp add: upload_after_checks[OF assms(1,2)] api_upload_file_def upload_plan_def sent1)
  qed
qed


lemma save_recipe_locally_frame:
  "images_dir (snd (save_recipe_locally R d s)) = images_dir s"
  "api_cache (snd (save_recipe_locally R d s)) = api_cache s"
  "logins (snd (save_recipe_locally R d s)) = logins s"
  "sent (snd (save_recipe_locally R d s)) = sent s"
  "data_file (snd (save_recipe_locally R d s)) \<noteq> None"
  by (simp_all add: save_recipe_locally_def Let_def split: prod.splits option.splits)

lemma sample_world_simps:
  "data_file sample_world \<noteq> None"
  "images_dir sample_world
     = Some [(ascii ''Dal_90015098.jpg'', [97, 98, 99]), (ascii ''Idli_0cc175b9.png'', [97])]"
  "api_cache sample_world = []"
  "logins sample_world = []"
  "sent sample_world = []"
  by (simp_all add: sample_world_def save_recipe_locally_frame fresh_world_def)



text \<open>
  C6, as amended. Called with a credential whose authentication fails with the error text
  \<open>e\<close>, \<open>upload_to_huggingface\<close> returns the failure flag and makes no transmission; when
  the backing file exists the message is \<open>Login failed:\<close> followed by \<open>e\<close>, and when it does
  not the message is \<open>No local dataset found.\<close>, the file being checked first.
\<close>

theorem upload_invalid_credential:
  assumes "initialize_hf_api H tok s = ((None, LoginError e), s1)"
  shows "upload_to_huggingface H repo tok include_images s
           = (if data_file s = None then ((False, ascii ''No local dataset found.''), s)
              else ((False, ascii ''Login failed: '' @ e), s1))
         \<and> sent (snd (upload_to_huggingface H repo tok include_images s)) = sent s"
proof -
  have "sent s1 = sent s"
    using initialize_hf_api_local[OF assms] by simp
  with assms show ?thesis
    by (simp add: upload_to_huggingface_def Let_def)
qed

lemma sample_invalid_login:
  "initialize_hf_api sample_hub (ascii ''bad'') sample_world
     = ((None, LoginError (ascii ''Invalid token'')),
        sample_world\<lparr>api_cache := [(ascii ''bad'', None, LoginError (ascii ''Invalid token''))],
                     logins := [ascii ''bad'']\<rparr>)"
  by (simp add: initialize_hf_api_def sample_world_simps sample_hub_def Let_def)

theorem upload_invalid_credential_witness:
  "data_file sample_world \<noteq> None \<and>
   upload_to_huggingface sample_hub (ascii ''user/recipes'') (ascii ''bad'') True sample_world
     = ((False, ascii ''Login failed: Invalid token''),
        sample_world\<lparr>api_cache := [(ascii ''bad'', None, LoginError (ascii ''Invalid token''))],
                     logins := [ascii ''bad'']\<rparr>)
   \<and> sent (snd (upload_to_huggingface sample_hub (ascii ''user/recipes'') (ascii ''bad'') True
                  sample_world)) = []"
  using upload_invalid_credential[OF sample_invalid_login, of "ascii ''user/recipes''" True]
    sample_world_simps(1,5)
  by simp

text \<open>
  The claim as stated fails: before the first recipe is saved, the upload with a credential
  the hub rejects returns the message about the missing dataset, not the authentication
  error; the credential is not tried.
\<close>

theorem invalid_credential_without_data_file:
  "login sample_hub (ascii ''bad'') = Some (ascii ''Invalid token'') \<and>
   upload_to_huggingface sample_hub (ascii ''user/recipes'') (ascii ''bad'') True fresh_world
     = ((False, ascii ''No local dataset found.''), fresh_world)
   \<and> logins fresh_world = []"
  by (simp add: upload_to_huggingface_def Let_def fresh_world_def sample_hub_def)



lemma sample_valid_login:
  "initialize_hf_api H (ascii ''hf_abc'') sample_world
     = ((Some HfApi, LoginTrue),
        sample_world\<lparr>api_cache := [(ascii ''hf_abc'', Some HfApi, LoginTrue)],
                     logins := [ascii ''hf_abc'']\<rparr>)"
  if "login H (ascii ''hf_abc'') = None"
  using that by (simp add: initialize_hf_api_def sample_world_simps Let_def)

lemma sample_plan:
  "upload_plan (ascii ''user/recipes'') (ascii ''hf_abc'') True sample_world
     = [dataset_call (ascii ''user/recipes'') (ascii ''hf_abc''),
        image_call (ascii ''user/recipes'') (ascii ''hf_abc'') (ascii ''Dal_90015098.jpg''),
        image_call (ascii ''user/recipes'') (ascii ''hf_abc'') (ascii ''Idli_0cc175b9.png'')]"
  by (simp add: upload_plan_def image_names_def sample_world_simps)


text \<open>
  C8. When the backing file exists and the authentication succeeds, and the transmission
  number \<open>k\<close> of the plan is the first that fails, with the error text \<open>e\<close>: the upload returns
  the failure flag with the message \<open>Upload failed:\<close> followed by \<open>e\<close>; the transmissions
  made are those of the plan up to the failing one and none after it; the backing file,
  the image directory and the cache of the loaded data are as before. Hence the upload can
  be called again: its plan is the same, the authentication is answered from the cache,
  and when the hub then accepts every transmission the whole plan is transmitted.
\<close>

theorem upload_stops_at_first_failure:
  assumes "data_file s \<noteq> None" and "initialize_hf_api H tok s = ((Some api, r), s1)"
    and "k < length (upload_plan repo tok include_images s)"
    and "upload_file H (length (sent s) + k) (upload_plan repo tok include_images s ! k) = Some e"
    and "\<forall>j < k. upload_file H (length (sent s) + j) (upload_plan repo tok include_images s ! j) = None"
  shows "\<exists>s'. upload_to_huggingface H repo tok include_images s
                 = ((False, ascii ''Upload failed: '' @ e), s')
          \<and> sent s' = sent s @ take (Suc k) (upload_plan repo tok include_images s)
          \<and> data_file s' = data_file s \<and> images_dir s' = images_dir s
          \<and> load_cache s' = load_cache s
          \<and> upload_plan repo tok include_images s' = upload_plan repo tok include_images s
          \<and> initialize_hf_api H tok s' = ((Some api, r), s')
          \<and> ((\<forall>j < length (upload_plan repo tok include_images s).
                 upload_file H (length (sent s') + j) (upload_plan repo tok include_images s ! j) = None)
               \<longrightarrow> upload_to_huggingface H repo tok include_images s'
                     = ((True, ascii ''Dataset uploaded successfully to: https://huggingface.co/datasets/''
                                 @ repo),
                        s'\<lparr>sent := sent s' @ upload_plan repo tok include_images s\<rparr>))"
proof -
  let ?plan = "upload_plan repo tok include_images s"
  let ?s' = "s1\<lparr>sent := sent s @ take (Suc k) ?plan\<rparr>"
  have loc: "data_file s1 = data_file s" "images_dir s1 = images_dir s"
    "load_cache s1 = load_cache s"
    using initialize_hf_api_local[OF assms(2)] by simp_all
  have 1: "upload_to_huggingface H repo tok include_images s
             = ((False, ascii ''Upload failed: '' @ e), ?s')"
    using assms by (intro upload_first_failure) auto
  have plan: "upload_plan repo tok include_images ?s' = ?plan"
    using loc by (simp add: upload_plan_def image_names_def)
  have init: "initialize_hf_api H tok ?s' = ((Some api, r), ?s')"
    using initialize_hf_api_hit[OF assms(2)] by (simp add: initialize_hf_api_def)
  have dfile: "data_file ?s' \<noteq> None"
    using assms(1) loc by simp
  have retry: "(\<forall>j < length ?plan.
                 upload_file H (length (sent ?s') + j) (?plan ! j) = None)
               \<longrightarrow> upload_to_huggingface H repo tok include_images ?s'
                     = ((True, ascii ''Dataset uploaded successfully to: https://huggingface.co/datasets/''
                                 @ repo),
                        ?s'\<lparr>sent := sent ?s' @ ?plan\<rparr>)"
    using upload_all_ok[OF dfile init, of repo include_images] plan by auto
  from 1 loc plan init retry show ?thesis
    by (intro exI[of _ ?s']) simp
qed

lemma flaky_login: "login flaky_hub (ascii ''hf_abc'') = None"
  by (simp add: flaky_hub_def)

theorem upload_stops_at_first_failure_witness:
  "data_file sample_world \<noteq> None \<and>
   (\<exists>s'. upload_to_huggingface flaky_hub (ascii ''user/recipes'') (ascii ''hf_abc'') True sample_world
            = ((False, ascii ''Upload failed: Connection reset''), s')
        \<and> sent s' = [dataset_call (ascii ''user/recipes'') (ascii ''hf_abc''),
                      image_call (ascii ''user/recipes'') (ascii ''hf_abc'')
                        (ascii ''Dal_90015098.jpg'')]
        \<and> data_file s' = data_file sample_world \<and> images_dir s' = images_dir sample_world
        \<and> (\<exists>s''. upload_to_huggingface flaky_hub (ascii ''user/recipes'') (ascii ''hf_abc'') True s'
                    = ((True, ascii ''Dataset uploaded successfully to: https://huggingface.co/datasets/user/recipes''), s'')
                \<and> length (sent s'') = 5))"
proof -
  let ?plan = "upload_plan (ascii ''user/recipes'') (ascii ''hf_abc'') True sample_world"
  have k: "1 < length ?plan"
    unfolding sample_plan by simp
  have f: "upload_file flaky_hub (length (sent sample_world) + 1) (?plan ! 1)
             = Some (ascii ''Connection reset'')"
    unfolding sample_plan by (simp add: flaky_hub_def sample_world_simps)
  have b: "\<forall>j < 1. upload_file flaky_hub (length (sent sample_world) + j) (?plan ! j) = None"
    by (simp add: flaky_hub_def sample_world_simps)
  from upload_stops_at_first_failure[OF sample_world_simps(1) sample_valid_login[OF flaky_login] k f b]
  obtain s' where s':
    "upload_to_huggingface flaky_hub (ascii ''user/recipes'') (ascii ''hf_abc'') True sample_world
       = ((False, ascii ''Upload failed: '' @ ascii ''Connection reset''), s')"
    "sent s' = sent sample_world @ take (Suc 1) ?plan"
    "data_file s' = data_file sample_world" "images_dir s' = images_dir sample_world"
    "(\<forall>j < length ?plan. upload_file flaky_hub (length (sent s') + j) (?plan ! j) = None)
       \<longrightarrow> upload_to_huggingface flaky_hub (ascii ''user/recipes'') (ascii ''hf_abc'') True s'
             = ((True, ascii ''Dataset uploaded successfully to: https://huggingface.co/datasets/''
                         @ ascii ''user/recipes''),
                s'\<lparr>sent := sent s' @ ?plan\<rparr>)"
    by blast
  have sent': "sent s' = [dataset_call (ascii ''user/recipes'') (ascii ''hf_abc''),
                      image_call (ascii ''user/recipes'') (ascii ''hf_abc'')
                        (ascii ''Dal_90015098.jpg'')]"
    using s'(2) unfolding sample_plan sample_world_simps(5) by simp
  have "\<forall>j < length ?plan. upload_file flaky_hub (length (sent s') + j) (?plan ! j) = None"
    unfolding sample_plan by (simp add: sent' flaky_hub_def)
  with s'(5) have again:
    "upload_to_huggingface flaky_hub (ascii ''user/recipes'') (ascii ''hf_abc'') True s'
       = ((True, ascii ''Dataset uploaded successfully to: https://huggingface.co/datasets/''
                   @ ascii ''user/recipes''),
          s'\<lparr>sent := sent s' @ ?plan\<rparr>)"
    by blast
  have "length (sent (s'\<lparr>sent := sent s' @ ?plan\<rparr>)) = 5"
    unfolding sample_plan by (simp add: sent')
  with again s'(1) sent' s'(3,4) sample_world_simps(1) show ?thesis
    by auto
qed

end
